theory Spec2Isabelle
  imports Complex_Main
begin

section \<open>Conventions of the embedding\<close>

text \<open>
  The theory embeds three modules of the repository:
  \<^item> \<^verbatim>\<open>simpa/utils/libraries/spectra_library.py\<close> (class AbsorptionSpectrum),
  \<^item> \<^verbatim>\<open>simpa/utils/libraries/molecule_library.py\<close> (classes Molecule and
    MolecularComposition),
  \<^item> \<^verbatim>\<open>simpa/core/simulation_modules/volume_creation_module/volume_creation_module_model_based_adapter.py\<close>
    (the loop of ModelBasedVolumeCreationAdapter.create_simulation_volume).

  Python floats, numpy float arrays and torch float tensors are modelled by the type
  \<open>real\<close>: rounding is not represented. Python integers are \<open>int\<close>. One-dimensional
  numpy arrays are lists. Every exception of the source is a value \<open>Inl e\<close> of the
  result type \<open>error + 'a\<close>.
\<close>

datatype error =
    ValueError
  | IndexError
  | TypeError string
  | ZeroDivisionError
  | RuntimeError
  | ComplexResult

text \<open>
  Sequencing: \<open>and_then m f\<close> runs \<open>f\<close> on the result of \<open>m\<close>, unless \<open>m\<close> raised.
\<close>

definition and_then :: "error + 'a \<Rightarrow> ('a \<Rightarrow> error + 'b) \<Rightarrow> error + 'b" where
  "and_then m f = (case m of Inl e \<Rightarrow> Inl e | Inr x \<Rightarrow> f x)"

section \<open>numpy primitives used by the source\<close>

text \<open>\<^verbatim>\<open>np.max\<close> and \<^verbatim>\<open>np.min\<close> raise ValueError on an empty array.\<close>

definition np_max :: "real list \<Rightarrow> error + real" where
  "np_max xs = (case xs of [] \<Rightarrow> Inl ValueError | x # r \<Rightarrow> Inr (fold max r x))"

definition np_min :: "real list \<Rightarrow> error + real" where
  "np_min xs = (case xs of [] \<Rightarrow> Inl ValueError | x # r \<Rightarrow> Inr (fold min r x))"

text \<open>Python's \<^verbatim>\<open>int(x)\<close> on a float truncates towards zero.\<close>

definition py_int :: "real \<Rightarrow> int" where
  "py_int x = (if 0 \<le> x then \<lfloor>x\<rfloor> else \<lceil>x\<rceil>)"

text \<open>
  Indexing a one-dimensional array of length \<open>n\<close> with an integer \<open>i\<close>: an index in
  \<open>[0, n)\<close> is used as it is, an index in \<open>[-n, 0)\<close> counts from the end, anything
  else raises IndexError.
\<close>

definition np_index :: "nat \<Rightarrow> int \<Rightarrow> error + nat" where
  "np_index n i =
     (if 0 \<le> i \<and> i < int n then Inr (nat i)
      else if - int n \<le> i \<and> i < 0 then Inr (nat (i + int n))
      else Inl IndexError)"

definition np_getitem :: "'a list \<Rightarrow> int \<Rightarrow> error + 'a" where
  "np_getitem xs i =
     and_then (np_index (length xs) i) (\<lambda>j. Inr (xs ! j))"

text \<open>
  \<^verbatim>\<open>np.interp(x, xp, fp)\<close> for increasing sample points \<open>xp\<close> (numpy does not check
  the order): left of the first sample point the first value, right of the last one the
  last value, on a sample point its value, and between \<open>xp[j]\<close> and \<open>xp[j+1]\<close> the
  value \<open>slope * (x - xp[j]) + fp[j]\<close>.
\<close>

fun interp_between :: "real \<Rightarrow> real list \<Rightarrow> real list \<Rightarrow> real" where
  "interp_between x (x0 # x1 # xp) (y0 # y1 # fp) =
     (if x < x1
      then (if x = x0 then y0 else (y1 - y0) / (x1 - x0) * (x - x0) + y0)
      else interp_between x (x1 # xp) (y1 # fp))"
| "interp_between x [x0] (y0 # fp) = y0"
| "interp_between x xp fp = 0"

definition np_interp1 :: "real \<Rightarrow> real list \<Rightarrow> real list \<Rightarrow> real" where
  "np_interp1 x xp fp =
     (if x < hd xp then hd fp
      else if last xp < x then last fp
      else interp_between x xp fp)"

definition np_interp :: "real list \<Rightarrow> real list \<Rightarrow> real list \<Rightarrow> real list" where
  "np_interp xs xp fp = map (\<lambda>x. np_interp1 x xp fp) xs"

text \<open>
  The comparison \<^verbatim>\<open>a == b\<close> of two one-dimensional numpy arrays is elementwise and
  gives an array of booleans; an array of length one is broadcast. For shapes that do
  not fit, the numpy releases of the repository's time give the scalar False.
\<close>

datatype np_bool = ScalarB bool | ArrayB "bool list"

definition np_eq :: "real list \<Rightarrow> real list \<Rightarrow> np_bool" where
  "np_eq a b =
     (if length a = length b then ArrayB (map2 (=) a b)
      else if length a = 1 then ArrayB (map (\<lambda>y. hd a = y) b)
      else if length b = 1 then ArrayB (map (\<lambda>x. x = hd b) a)
      else ScalarB False)"

section \<open>spectra_library.py: AbsorptionSpectrum\<close>

record AbsorptionSpectrum =
  spectrum_name :: string
  wavelengths :: "real list"
  max_wavelength :: int
  min_wavelength :: int
  absorption_per_centimeter :: "real list"
  new_wavelengths :: "int list"
  new_absorptions :: "real list"

text \<open>
  \<^verbatim>\<open>AbsorptionSpectrum.__init__\<close>: the maximum and minimum are taken first (an empty
  array fails there), then the shapes are compared, then the curve is resampled onto
  \<^verbatim>\<open>np.arange(min_wavelength, max_wavelength + 1, 1)\<close>.
\<close>

definition AbsorptionSpectrum_init ::
  "string \<Rightarrow> real list \<Rightarrow> real list \<Rightarrow> error + AbsorptionSpectrum" where
  "AbsorptionSpectrum_init name wls absorption =
     and_then (np_max wls) (\<lambda>mx.
     and_then (np_min wls) (\<lambda>mn.
       if length wls \<noteq> length absorption then Inl ValueError
       else
         let new_wls = [py_int mn .. py_int mx]
         in Inr \<lparr> spectrum_name = name,
                  wavelengths = wls,
                  max_wavelength = py_int mx,
                  min_wavelength = py_int mn,
                  absorption_per_centimeter = absorption,
                  new_wavelengths = new_wls,
                  new_absorptions = np_interp (map real_of_int new_wls) wls absorption \<rparr>))"

text \<open>
  \<^verbatim>\<open>get_absorption_for_wavelength\<close>: the range checks of the source are commented
  out, so the method is the bare array access
  \<^verbatim>\<open>self.new_absorptions[wavelength - self.min_wavelength]\<close>.
\<close>

definition get_absorption_for_wavelength :: "AbsorptionSpectrum \<Rightarrow> int \<Rightarrow> error + real" where
  "get_absorption_for_wavelength self wavelength =
     np_getitem (new_absorptions self) (wavelength - min_wavelength self)"

text \<open>
  The Python values a caller can pass where the source tests a type with
  \<^verbatim>\<open>isinstance\<close>: a spectrum, a float, an int, a bool, a string, or something else.
\<close>

datatype py_object =
    PySpectrum AbsorptionSpectrum
  | PyFloat real
  | PyInt int
  | PyBool bool
  | PyStr string
  | PyOther

text \<open>
  \<^verbatim>\<open>AbsorptionSpectrum.__eq__\<close>. For another AbsorptionSpectrum the method returns
  the three comparisons separated by commas, that is, a tuple of three components; for
  any other object it defers to \<^verbatim>\<open>object.__eq__\<close>, which gives NotImplemented.
\<close>

datatype eq_value = PyTuple3 bool np_bool np_bool | PyNotImplemented

definition AbsorptionSpectrum_eq :: "AbsorptionSpectrum \<Rightarrow> py_object \<Rightarrow> eq_value" where
  "AbsorptionSpectrum_eq self other =
     (case other of
        PySpectrum other_spectrum \<Rightarrow>
          PyTuple3 (spectrum_name self = spectrum_name other_spectrum)
                   (np_eq (wavelengths self) (wavelengths other_spectrum))
                   (np_eq (absorption_per_centimeter self)
                          (absorption_per_centimeter other_spectrum))
      | _ \<Rightarrow> PyNotImplemented)"

text \<open>
  The truth value Python gives the result of \<^verbatim>\<open>a == b\<close> in a condition: a tuple is
  true exactly when it is not empty, so a tuple of three components is true. When
  \<^verbatim>\<open>__eq__\<close> gives NotImplemented, \<^verbatim>\<open>==\<close> falls back to identity; the other
  object is not this spectrum, so the comparison is false.
\<close>

definition py_bool :: "eq_value \<Rightarrow> bool" where
  "py_bool v = (case v of PyTuple3 a b c \<Rightarrow> True | PyNotImplemented \<Rightarrow> False)"

text \<open>
  The library constant
  \<^verbatim>\<open>CONSTANT_ABSORBER_ZERO = AbsorptionSpectrum("Constant Absorber (0)", np.asarray([450, 1000]), np.asarray([1e-10, 1e-10]))\<close>.
\<close>

definition CONSTANT_ABSORBER_ZERO :: AbsorptionSpectrum where
  "CONSTANT_ABSORBER_ZERO =
     projr (AbsorptionSpectrum_init ''Constant Absorber (0)'' [450, 1000]
              [1 / 10 ^ 10, 1 / 10 ^ 10])"

section \<open>molecule_library.py: Molecule\<close>

record Molecule =
  spectrum :: AbsorptionSpectrum
  volume_fraction :: real
  mus500 :: real
  f_ray :: real
  b_mie :: real
  anisotropy :: real
  gruneisen_parameter :: real
  density :: real
  speed_of_sound :: real
  alpha_coefficient :: real

text \<open>
  Each numeric parameter of \<^verbatim>\<open>Molecule.__init__\<close> goes through the same two statements:
  \<^verbatim>\<open>if x is None: x = default\<close> and
  \<^verbatim>\<open>if not isinstance(x, float): raise TypeError("The given x was not of type float!")\<close>.
  An argument is \<open>None\<close> when the caller leaves it out (or passes None).
\<close>

definition float_or_default :: "string \<Rightarrow> real \<Rightarrow> py_object option \<Rightarrow> error + real" where
  "float_or_default field dflt arg =
     (case arg of
        None \<Rightarrow> Inr dflt
      | Some (PyFloat x) \<Rightarrow> Inr x
      | Some _ \<Rightarrow> Inl (TypeError (''The given '' @ field @ '' was not of type float!'')))"

definition spectrum_or_default :: "py_object option \<Rightarrow> error + AbsorptionSpectrum" where
  "spectrum_or_default arg =
     (case arg of
        None \<Rightarrow> Inr CONSTANT_ABSORBER_ZERO
      | Some (PySpectrum s) \<Rightarrow> Inr s
      | Some _ \<Rightarrow> Inl (TypeError ''The given spectrum was not of type AbsorptionSpectrum!''))"

definition Molecule_init ::
  "py_object option \<Rightarrow> py_object option \<Rightarrow> py_object option \<Rightarrow> py_object option \<Rightarrow>
   py_object option \<Rightarrow> py_object option \<Rightarrow> py_object option \<Rightarrow> py_object option \<Rightarrow>
   py_object option \<Rightarrow> py_object option \<Rightarrow> error + Molecule" where
  "Molecule_init spectrum_arg volume_fraction_arg mus500_arg f_ray_arg b_mie_arg anisotropy_arg
       gruneisen_parameter_arg density_arg speed_of_sound_arg alpha_coefficient_arg =
     and_then (spectrum_or_default spectrum_arg) (\<lambda>sp.
     and_then (float_or_default ''volume_fraction'' 0 volume_fraction_arg) (\<lambda>vf.
     and_then (float_or_default ''mus500'' (1 / 10 ^ 20) mus500_arg) (\<lambda>mu.
     and_then (float_or_default ''f_ray'' 0 f_ray_arg) (\<lambda>fr.
     and_then (float_or_default ''b_mie'' 0 b_mie_arg) (\<lambda>bm.
     and_then (float_or_default ''anisotropy'' 0 anisotropy_arg) (\<lambda>an.
     and_then (float_or_default ''gruneisen_parameter'' 1 gruneisen_parameter_arg) (\<lambda>gr.
     and_then (float_or_default ''density'' 0 density_arg) (\<lambda>de.
     and_then (float_or_default ''speed_of_sound'' 0 speed_of_sound_arg) (\<lambda>sos.
     and_then (float_or_default ''alpha_coefficient'' 0 alpha_coefficient_arg) (\<lambda>al.
       Inr \<lparr> spectrum = sp, volume_fraction = vf, mus500 = mu, f_ray = fr, b_mie = bm,
             anisotropy = an, gruneisen_parameter = gr, density = de, speed_of_sound = sos,
             alpha_coefficient = al \<rparr>))))))))))"

text \<open>
  Vocabulary for statements about \<^verbatim>\<open>Molecule.__init__\<close>: whether an argument is left
  out or is a float (a spectrum), and the value the field then gets.
\<close>

definition float_or_unset :: "py_object option \<Rightarrow> bool" where
  "float_or_unset arg = (case arg of None \<Rightarrow> True | Some (PyFloat x) \<Rightarrow> True | Some _ \<Rightarrow> False)"

definition spectrum_or_unset :: "py_object option \<Rightarrow> bool" where
  "spectrum_or_unset arg =
     (case arg of None \<Rightarrow> True | Some (PySpectrum s) \<Rightarrow> True | Some _ \<Rightarrow> False)"

definition float_value :: "real \<Rightarrow> py_object option \<Rightarrow> real" where
  "float_value dflt arg = (case arg of Some (PyFloat x) \<Rightarrow> x | _ \<Rightarrow> dflt)"

definition spectrum_value :: "py_object option \<Rightarrow> AbsorptionSpectrum" where
  "spectrum_value arg = (case arg of Some (PySpectrum s) \<Rightarrow> s | _ \<Rightarrow> CONSTANT_ABSORBER_ZERO)"

section \<open>molecule_library.py: MolecularComposition\<close>

text \<open>
  Modelled from the spec: the class TissueProperties
  (\<^verbatim>\<open>simpa.utils.tissue_properties\<close>) is not among the sources. It is a dictionary
  with one entry per property tag and an attribute \<^verbatim>\<open>volume_fraction\<close>; the source
  adds to the entries of a fresh instance with \<^verbatim>\<open>+=\<close>, and the spec calls the result
  the sum over the molecules, so a fresh instance holds 0 everywhere. The entries for
  the segmentation and the oxygenation can hold None.
\<close>

record TissueProperties =
  tp_volume_fraction :: real
  PROPERTY_SEGMENTATION :: "int option"
  PROPERTY_OXYGENATION :: "real option"
  PROPERTY_ANISOTROPY :: real
  PROPERTY_GRUNEISEN_PARAMETER :: real
  PROPERTY_DENSITY :: real
  PROPERTY_SPEED_OF_SOUND :: real
  PROPERTY_ALPHA_COEFF :: real
  PROPERTY_ABSORPTION_PER_CM :: real
  PROPERTY_SCATTERING_PER_CM :: real

definition TissueProperties_init :: TissueProperties where
  "TissueProperties_init =
     \<lparr> tp_volume_fraction = 0,
       PROPERTY_SEGMENTATION = Some 0,
       PROPERTY_OXYGENATION = Some 0,
       PROPERTY_ANISOTROPY = 0,
       PROPERTY_GRUNEISEN_PARAMETER = 0,
       PROPERTY_DENSITY = 0,
       PROPERTY_SPEED_OF_SOUND = 0,
       PROPERTY_ALPHA_COEFF = 0,
       PROPERTY_ABSORPTION_PER_CM = 0,
       PROPERTY_SCATTERING_PER_CM = 0 \<rparr>"

text \<open>
  A composition holds a reference to its TissueProperties object and hands the same
  reference to its callers, so the objects live in a store: \<open>objs\<close> maps an address to
  the object there, \<open>next_addr\<close> is the first address not yet in use.
\<close>

type_synonym addr = nat

record store =
  objs :: "addr \<Rightarrow> TissueProperties"
  next_addr :: addr

definition new_TissueProperties :: "store \<Rightarrow> addr \<times> store" where
  "new_TissueProperties h =
     (next_addr h,
      h\<lparr> objs := (objs h)(next_addr h := TissueProperties_init),
         next_addr := Suc (next_addr h) \<rparr>)"

text \<open>
  The class derives from \<^verbatim>\<open>list\<close>: \<open>molecules\<close> is the list itself. The two caches
  are numpy arrays owned by the composition alone and are kept by value.
\<close>

record MolecularComposition =
  molecules :: "Molecule list"
  segmentation_type :: "int option"
  internal_properties :: addr
  cached_absorption :: "real list"
  cached_scattering :: "real list"

text \<open>
  \<^verbatim>\<open>MolecularComposition.__init__\<close>; the settings dictionary, when given, is the list
  of its (name, molecule) entries in key order.
\<close>

definition MolecularComposition_init ::
  "int option \<Rightarrow> (string \<times> Molecule) list option \<Rightarrow> store \<Rightarrow> MolecularComposition \<times> store" where
  "MolecularComposition_init seg_type molecular_composition_settings h =
     (let (a, h') = new_TissueProperties h
      in (\<lparr> molecules =
               (case molecular_composition_settings of
                  None \<Rightarrow> []
                | Some settings \<Rightarrow> map snd settings),
             segmentation_type = seg_type,
             internal_properties = a,
             cached_absorption = replicate 5000 (- 1),
             cached_scattering = replicate 5000 (- 1) \<rparr>, h'))"

text \<open>The body of the loop of \<^verbatim>\<open>update_internal_properties\<close>, for one molecule.\<close>

definition add_molecule :: "Molecule \<Rightarrow> TissueProperties \<Rightarrow> TissueProperties" where
  "add_molecule molecule p =
     p\<lparr> tp_volume_fraction := tp_volume_fraction p + volume_fraction molecule,
        PROPERTY_ANISOTROPY :=
          PROPERTY_ANISOTROPY p + volume_fraction molecule * anisotropy molecule,
        PROPERTY_GRUNEISEN_PARAMETER :=
          PROPERTY_GRUNEISEN_PARAMETER p + volume_fraction molecule * gruneisen_parameter molecule,
        PROPERTY_DENSITY :=
          PROPERTY_DENSITY p + volume_fraction molecule * density molecule,
        PROPERTY_SPEED_OF_SOUND :=
          PROPERTY_SPEED_OF_SOUND p + volume_fraction molecule * speed_of_sound molecule,
        PROPERTY_ALPHA_COEFF :=
          PROPERTY_ALPHA_COEFF p + volume_fraction molecule * alpha_coefficient molecule \<rparr>"

text \<open>
  \<^verbatim>\<open>update_internal_properties\<close>. The function \<^verbatim>\<open>calculate_oxygenation\<close>
  (\<^verbatim>\<open>simpa.utils.calculate\<close>) is not among the sources and is a parameter. The method
  makes a new TissueProperties object, which becomes the composition's
  \<open>internal_properties\<close>; the object it replaces stays in the store.
\<close>

definition update_internal_properties ::
  "(Molecule list \<Rightarrow> real option) \<Rightarrow> MolecularComposition \<Rightarrow> store \<Rightarrow> MolecularComposition \<times> store"
  where
  "update_internal_properties calculate_oxygenation self h =
     (let (a, h1) = new_TissueProperties h;
          p0 = (objs h1 a)\<lparr> PROPERTY_SEGMENTATION := segmentation_type self,
                            PROPERTY_OXYGENATION := calculate_oxygenation (molecules self) \<rparr>;
          p1 = fold add_molecule (molecules self) p0;
          p2 = (if tp_volume_fraction p1 > 1
                then p1\<lparr> PROPERTY_ANISOTROPY := PROPERTY_ANISOTROPY p1 / tp_volume_fraction p1 \<rparr>
                else p1)
      in (self\<lparr> internal_properties := a \<rparr>, h1\<lparr> objs := (objs h1)(a := p2) \<rparr>))"

text \<open>
  Python's \<^verbatim>\<open>x ** y\<close> on floats: anything to the power 0 is 1; a positive base gives
  the real power; base 0 raises ZeroDivisionError for a negative exponent and gives 0
  for a positive one; a negative base gives a real number for an integral exponent
  and a complex number otherwise, which this model of real-valued properties reports
  as \<open>ComplexResult\<close>.
\<close>

definition py_pow :: "real \<Rightarrow> real \<Rightarrow> error + real" where
  "py_pow x y =
     (if y = 0 then Inr 1
      else if 0 < x then Inr (x powr y)
      else if x = 0 then (if y < 0 then Inl ZeroDivisionError else Inr 0)
      else if y = real_of_int \<lfloor>y\<rfloor>
        then Inr ((if even \<lfloor>y\<rfloor> then 1 else - 1) * ((- x) powr y))
      else Inl ComplexResult)"

text \<open>
  The scattering a molecule adds at a wavelength:
  \<^verbatim>\<open>volume_fraction * (mus500 * (f_ray * (wavelength / 500) ** 1e-4 + (1 - f_ray) * (wavelength / 500) ** -b_mie))\<close>.
\<close>

definition scattering_of :: "Molecule \<Rightarrow> int \<Rightarrow> error + real" where
  "scattering_of molecule wavelength =
     and_then (py_pow (real_of_int wavelength / 500) (1 / 10 ^ 4)) (\<lambda>ray.
     and_then (py_pow (real_of_int wavelength / 500) (- b_mie molecule)) (\<lambda>mie.
       Inr (volume_fraction molecule *
              (mus500 molecule * (f_ray molecule * ray + (1 - f_ray molecule) * mie)))))"

text \<open>
  The loop \<^verbatim>\<open>for molecule in self\<close> of \<^verbatim>\<open>get_properties_for_wavelength\<close>, with
  the two running sums as accumulators; a failing spectrum lookup or power ends it.
\<close>

fun sum_molecules :: "Molecule list \<Rightarrow> int \<Rightarrow> real \<Rightarrow> real \<Rightarrow> error + real \<times> real" where
  "sum_molecules [] wavelength mua mus = Inr (mua, mus)"
| "sum_molecules (molecule # rest) wavelength mua mus =
     and_then (get_absorption_for_wavelength (spectrum molecule) wavelength) (\<lambda>a.
     and_then (scattering_of molecule wavelength) (\<lambda>s.
       sum_molecules rest wavelength (mua + volume_fraction molecule * a) (mus + s)))"

text \<open>Writing the two wavelength-dependent entries of the object at an address.\<close>

definition set_absorption_scattering :: "addr \<Rightarrow> real \<Rightarrow> real \<Rightarrow> store \<Rightarrow> store" where
  "set_absorption_scattering a mua mus h =
     h\<lparr> objs := (objs h)(a := (objs h a)\<lparr> PROPERTY_ABSORPTION_PER_CM := mua,
                                            PROPERTY_SCATTERING_PER_CM := mus \<rparr>) \<rparr>"

text \<open>
  The first branch of \<^verbatim>\<open>get_properties_for_wavelength\<close>: both scalars are read from
  the caches; no molecule is looked at.
\<close>

definition read_cached ::
  "MolecularComposition \<Rightarrow> int \<Rightarrow> store \<Rightarrow> error + addr \<times> MolecularComposition \<times> store" where
  "read_cached self wavelength h =
     and_then (np_getitem (cached_absorption self) wavelength) (\<lambda>mua.
     and_then (np_getitem (cached_scattering self) wavelength) (\<lambda>mus.
       Inr (internal_properties self, self,
            set_absorption_scattering (internal_properties self) mua mus h)))"

text \<open>
  The second branch: the sums over the molecules are computed, stored in the object
  and written to the two cache slots.
\<close>

definition compute_and_cache ::
  "MolecularComposition \<Rightarrow> int \<Rightarrow> store \<Rightarrow> error + addr \<times> MolecularComposition \<times> store" where
  "compute_and_cache self wavelength h =
     and_then (sum_molecules (molecules self) wavelength 0 0) (\<lambda>(mua, mus).
     and_then (np_index (length (cached_absorption self)) wavelength) (\<lambda>i.
     and_then (np_index (length (cached_scattering self)) wavelength) (\<lambda>j.
       Inr (internal_properties self,
            self\<lparr> cached_absorption := (cached_absorption self)[i := mua],
                  cached_scattering := (cached_scattering self)[j := mus] \<rparr>,
            set_absorption_scattering (internal_properties self) mua mus h))))"

text \<open>
  \<^verbatim>\<open>get_properties_for_wavelength\<close>: the test
  \<^verbatim>\<open>self.cached_absorption[wavelength] != -1\<close> chooses the branch. The result is the
  address of \<open>internal_properties\<close> (the method returns the object itself), the
  composition and the store after the call. When the call raises, the state it leaves
  behind is not represented.
\<close>

definition get_properties_for_wavelength ::
  "MolecularComposition \<Rightarrow> int \<Rightarrow> store \<Rightarrow> error + addr \<times> MolecularComposition \<times> store" where
  "get_properties_for_wavelength self wavelength h =
     and_then (np_getitem (cached_absorption self) wavelength) (\<lambda>cached.
       if cached \<noteq> - 1 then read_cached self wavelength h
       else compute_and_cache self wavelength h)"

text \<open>
  The same method with an instrumentation counter, as the test of the cache in the
  spec uses one: the last component of the result is the number of molecules whose
  absorption and scattering the call computed. The loop counts one per molecule; the
  branch that reads the caches counts none. The source has no such variable, and
  \<open>counted_agrees\<close> below shows that the counter changes nothing else.
\<close>

fun sum_molecules_counted ::
  "Molecule list \<Rightarrow> int \<Rightarrow> real \<Rightarrow> real \<Rightarrow> nat \<Rightarrow> error + real \<times> real \<times> nat" where
  "sum_molecules_counted [] wavelength mua mus k = Inr (mua, mus, k)"
| "sum_molecules_counted (molecule # rest) wavelength mua mus k =
     and_then (get_absorption_for_wavelength (spectrum molecule) wavelength) (\<lambda>a.
     and_then (scattering_of molecule wavelength) (\<lambda>s.
       sum_molecules_counted rest wavelength (mua + volume_fraction molecule * a) (mus + s)
         (Suc k)))"

definition compute_and_cache_counted ::
  "MolecularComposition \<Rightarrow> int \<Rightarrow> store \<Rightarrow>
   error + (addr \<times> MolecularComposition \<times> store) \<times> nat" where
  "compute_and_cache_counted self wavelength h =
     and_then (sum_molecules_counted (molecules self) wavelength 0 0 0) (\<lambda>(mua, mus, k).
     and_then (np_index (length (cached_absorption self)) wavelength) (\<lambda>i.
     and_then (np_index (length (cached_scattering self)) wavelength) (\<lambda>j.
       Inr ((internal_properties self,
             self\<lparr> cached_absorption := (cached_absorption self)[i := mua],
                   cached_scattering := (cached_scattering self)[j := mus] \<rparr>,
             set_absorption_scattering (internal_properties self) mua mus h), k))))"

definition get_properties_for_wavelength_counted ::
  "MolecularComposition \<Rightarrow> int \<Rightarrow> store \<Rightarrow>
   error + (addr \<times> MolecularComposition \<times> store) \<times> nat" where
  "get_properties_for_wavelength_counted self wavelength h =
     and_then (np_getitem (cached_absorption self) wavelength) (\<lambda>cached.
       if cached \<noteq> - 1
       then and_then (read_cached self wavelength h) (\<lambda>result. Inr (result, 0))
       else compute_and_cache_counted self wavelength h)"

text \<open>
  A store with no object made yet, and a composition of one molecule that absorbs and
  does not scatter (\<^verbatim>\<open>mus500 = 0.0\<close>), made by
  \<^verbatim>\<open>MolecularComposition(molecular_composition_settings={"absorber": molecule})\<close>.
\<close>

definition empty_store :: store where
  "empty_store = \<lparr> objs = (\<lambda>a. TissueProperties_init), next_addr = 0 \<rparr>"

definition absorber :: "AbsorptionSpectrum \<Rightarrow> real \<Rightarrow> Molecule" where
  "absorber sp vf =
     \<lparr> spectrum = sp, volume_fraction = vf, mus500 = 0, f_ray = 0, b_mie = 0, anisotropy = 0,
       gruneisen_parameter = 1, density = 0, speed_of_sound = 0, alpha_coefficient = 0 \<rparr>"

definition absorber_composition :: "AbsorptionSpectrum \<Rightarrow> real \<Rightarrow> MolecularComposition \<times> store" where
  "absorber_composition sp vf =
     MolecularComposition_init None (Some [(''absorber'', absorber sp vf)]) empty_store"

section \<open>volume_creation_module_model_based_adapter.py: create_simulation_volume\<close>

text \<open>
  Modelled from the spec: the module \<^verbatim>\<open>Tags\<close> is not among the sources. The keys of
  the volume dictionary are the fields the spec lists for the property volume, and the
  oxygenation.
\<close>

datatype data_field =
    DATA_FIELD_ABSORPTION_PER_CM
  | DATA_FIELD_SCATTERING_PER_CM
  | DATA_FIELD_ANISOTROPY
  | DATA_FIELD_GRUNEISEN_PARAMETER
  | DATA_FIELD_SEGMENTATION
  | DATA_FIELD_OXYGENATION
  | DATA_FIELD_DENSITY
  | DATA_FIELD_SPEED_OF_SOUND
  | DATA_FIELD_ALPHA_COEFF

text \<open>
  The numbers of the class \<^verbatim>\<open>SegmentationClasses\<close>, which is not among the sources,
  are parameters.
\<close>

record SegmentationClasses =
  ARTERY :: real
  VEIN :: real
  RANDOM_ARTERY :: real
  RANDOM_VEIN :: real

text \<open>
  What the loop reads of a structure. The method
  \<^verbatim>\<open>structure.properties_for_wavelength\<close> is not among the sources: the dictionary it
  returned for the wavelength of the run is the field \<open>properties_for_wavelength\<close>,
  with \<open>None\<close> for an entry that holds None. \<open>geometrical_volume\<close> is the occupancy
  array in the order of the grid, \<open>(x * y_dim_px + y) * z_dim_px + z\<close>.
\<close>

record Structure =
  properties_for_wavelength :: "data_field \<Rightarrow> real option"
  params :: "string list"
  geometrical_volume :: "real list"

text \<open>Python's \<^verbatim>\<open>sub in s\<close> on strings.\<close>

fun str_in :: "string \<Rightarrow> string \<Rightarrow> bool" where
  "str_in sub [] = (sub = [])"
| "str_in sub (c # cs) = (take (length sub) (c # cs) = sub \<or> str_in sub cs)"

text \<open>
  Lines 76 to 86: the segmentation entry is overwritten according to
  \<^verbatim>\<open>structure.params[5]\<close>; when the access raises, the bare \<^verbatim>\<open>except\<close> prints a
  message and the dictionary stays as it is.
\<close>

definition vessel_segmentation ::
  "SegmentationClasses \<Rightarrow> string list \<Rightarrow> (data_field \<Rightarrow> real option) \<Rightarrow> (data_field \<Rightarrow> real option)"
  where
  "vessel_segmentation sc ps structure_properties =
     (if length ps \<le> 5 then structure_properties
      else
        let p5 = ps ! 5 in
        if str_in ''artery'' p5 \<and> \<not> str_in ''random'' p5
          then structure_properties(DATA_FIELD_SEGMENTATION := Some (ARTERY sc))
        else if str_in ''vein'' p5 \<and> \<not> str_in ''random'' p5
          then structure_properties(DATA_FIELD_SEGMENTATION := Some (VEIN sc))
        else if str_in ''random_artery'' p5
          then structure_properties(DATA_FIELD_SEGMENTATION := Some (RANDOM_ARTERY sc))
        else if str_in ''random_vein'' p5
          then structure_properties(DATA_FIELD_SEGMENTATION := Some (RANDOM_VEIN sc))
        else structure_properties)"

text \<open>
  A tensor over the grid is the list of its entries. The assignment through a boolean
  index, \<^verbatim>\<open>target[sel] = source[sel]\<close>, replaces the selected entries.
\<close>

definition masked_assign :: "bool list \<Rightarrow> 'a list \<Rightarrow> 'a list \<Rightarrow> 'a list" where
  "masked_assign sel target source =
     map (\<lambda>(c, t, s). if c then s else t) (zip sel (zip target source))"

definition structure_indexes_mask :: "real list \<Rightarrow> bool list" where
  "structure_indexes_mask structure_volume_fractions =
     map (\<lambda>v. 0 < v) structure_volume_fractions"

definition global_volume_fractions_mask :: "real list \<Rightarrow> bool list" where
  "global_volume_fractions_mask gvf = map (\<lambda>v. v < 1) gvf"

definition mask_of :: "real list \<Rightarrow> real list \<Rightarrow> bool list" where
  "mask_of gvf structure_volume_fractions =
     map2 (\<and>) (structure_indexes_mask structure_volume_fractions)
              (global_volume_fractions_mask gvf)"

text \<open>
  Lines 93 to 103. In \<^verbatim>\<open>added_volume_fraction <= 1 & mask\<close> the operator \<^verbatim>\<open>&\<close> binds
  tighter than \<^verbatim>\<open><=\<close>: the sum is compared with \<^verbatim>\<open>1 & mask\<close>, which is 1 where
  the mask holds and 0 elsewhere. The second assignment runs when
  \<^verbatim>\<open>torch.any(selector_more_than_1)\<close>; its selector is not combined with the mask.
\<close>

definition added_volume_fraction :: "real list \<Rightarrow> real list \<Rightarrow> real list" where
  "added_volume_fraction gvf structure_volume_fractions =
     (let mask = mask_of gvf structure_volume_fractions;
          added0 = map2 (+) gvf structure_volume_fractions;
          selector_le = map2 (\<lambda>a m. a \<le> (if m then 1 else 0)) added0 mask;
          added1 = masked_assign selector_le added0 structure_volume_fractions;
          selector_more_than_1 = map (\<lambda>a. 1 < a) added1
      in if list_ex id selector_more_than_1
         then masked_assign selector_more_than_1 added1
                (map2 min (map (\<lambda>v. 1 - v) gvf) structure_volume_fractions)
         else added1)"

text \<open>
  The plane \<^verbatim>\<open>t[:, j, :]\<close> of a tensor of shape \<open>(x_dim_px, y_dim_px, z_dim_px)\<close>,
  and the index of line 105,
  \<^verbatim>\<open>int((DIM_VOLUME_Y_MM / 2) / SPACING_MM)\<close>, checked against the y dimension.
\<close>

definition y_plane :: "nat \<Rightarrow> nat \<Rightarrow> nat \<Rightarrow> nat \<Rightarrow> 'a list \<Rightarrow> 'a list" where
  "y_plane x_dim_px y_dim_px z_dim_px j t =
     concat (map (\<lambda>x. map (\<lambda>z. t ! ((x * y_dim_px + j) * z_dim_px + z)) [0..<z_dim_px])
                 [0..<x_dim_px])"

definition y_plane_index :: "nat \<Rightarrow> real \<Rightarrow> real \<Rightarrow> error + nat" where
  "y_plane_index y_dim_px dim_volume_y_mm spacing_mm =
     (if spacing_mm = 0 then Inl ZeroDivisionError
      else np_index y_dim_px (py_int ((dim_volume_y_mm / 2) / spacing_mm)))"

text \<open>
  Lines 108 to 117, the loop over the keys of the volume dictionary: an entry of the
  structure's properties that is None is skipped; the segmentation is written where
  the added fraction is above the largest one so far and the mask holds, and that
  largest fraction is raised there; every other field accumulates
  \<open>added * value\<close> under the mask.
\<close>

fun update_volumes ::
  "(data_field \<Rightarrow> real option) \<Rightarrow> bool list \<Rightarrow> real list \<Rightarrow>
   (data_field \<times> real list) list \<Rightarrow> real list \<Rightarrow> (data_field \<times> real list) list \<times> real list"
  where
  "update_volumes structure_properties msk added [] max_added = ([], max_added)"
| "update_volumes structure_properties msk added ((key, vol) # rest) max_added =
     (case structure_properties key of
        None \<Rightarrow>
          (let (rest', max_added') = update_volumes structure_properties msk added rest max_added
           in ((key, vol) # rest', max_added'))
      | Some v \<Rightarrow>
          if key = DATA_FIELD_SEGMENTATION then
            (let sel = map2 (\<and>) (map2 (\<lambda>a m. m < a) added max_added) msk;
                 vol' = masked_assign sel vol (replicate (length vol) v);
                 (rest', max_added') =
                   update_volumes structure_properties msk added rest
                     (masked_assign sel max_added added)
             in ((key, vol') # rest', max_added'))
          else
            (let vol' = masked_assign msk vol (map2 (\<lambda>x a. x + a * v) vol added);
                 (rest', max_added') =
                   update_volumes structure_properties msk added rest max_added
             in ((key, vol') # rest', max_added')))"

text \<open>The variables of the loop over the structures; \<open>n_counter\<close> is the variable \<^verbatim>\<open>n\<close>.\<close>

record pass_state =
  volumes :: "(data_field \<times> real list) list"
  global_volume_fractions :: "real list"
  max_added_fractions :: "real list"
  structures_filling :: "real list list"
  n_counter :: nat

text \<open>
  The settings the loop reads: the segmentation classes, the dimensions of the grid in
  voxels, and the two lengths of line 105.
\<close>

record settings =
  segmentation_classes :: SegmentationClasses
  x_dim_px :: nat
  y_dim_px :: nat
  z_dim_px :: nat
  DIM_VOLUME_Y_MM :: real
  SPACING_MM :: real

text \<open>
  One iteration of the loop (lines 74 to 119). torch refuses tensors of different
  shapes; here the occupancy array must have as many entries as the grid.
\<close>

definition process_structure :: "settings \<Rightarrow> Structure \<Rightarrow> pass_state \<Rightarrow> error + pass_state" where
  "process_structure cfg s st =
     (let structure_properties =
            vessel_segmentation (segmentation_classes cfg) (params s) (properties_for_wavelength s);
          structure_volume_fractions = geometrical_volume s
      in if length structure_volume_fractions \<noteq> x_dim_px cfg * y_dim_px cfg * z_dim_px cfg
         then Inl RuntimeError
         else
           let mask = mask_of (global_volume_fractions st) structure_volume_fractions;
               added = added_volume_fraction (global_volume_fractions st) structure_volume_fractions
           in and_then (y_plane_index (y_dim_px cfg) (DIM_VOLUME_Y_MM cfg) (SPACING_MM cfg)) (\<lambda>j.
                if length (structures_filling st) \<le> n_counter st then Inl IndexError
                else
                  let filling = (structures_filling st)
                        [n_counter st := y_plane (x_dim_px cfg) (y_dim_px cfg) (z_dim_px cfg) j added];
                      (vols, max_added) =
                        update_volumes structure_properties mask added (volumes st)
                          (max_added_fractions st)
                  in Inr \<lparr> volumes = vols,
                          global_volume_fractions =
                            masked_assign mask (global_volume_fractions st)
                              (map2 (+) (global_volume_fractions st) added),
                          max_added_fractions = max_added,
                          structures_filling = filling,
                          n_counter = Suc (n_counter st) \<rparr>))"

fun process_structures :: "settings \<Rightarrow> Structure list \<Rightarrow> pass_state \<Rightarrow> error + pass_state" where
  "process_structures cfg [] st = Inr st"
| "process_structures cfg (s # rest) st =
     and_then (process_structure cfg s st) (process_structures cfg rest)"

text \<open>
  The state before the loop (lines 62 to 70). \<^verbatim>\<open>create_empty_volumes\<close> is not among
  the sources: the keys of its dictionary are a parameter, and every volume starts at
  zero, as the spec says. \<open>structures_filling\<close> has one plane per structure.
\<close>

definition initial_state :: "settings \<Rightarrow> data_field list \<Rightarrow> nat \<Rightarrow> pass_state" where
  "initial_state cfg keys n_structures =
     (let size = x_dim_px cfg * y_dim_px cfg * z_dim_px cfg
      in \<lparr> volumes = map (\<lambda>k. (k, replicate size 0)) keys,
           global_volume_fractions = replicate size 0,
           max_added_fractions = replicate size 0,
           structures_filling = replicate n_structures (replicate (x_dim_px cfg * z_dim_px cfg) 0),
           n_counter = 0 \<rparr>)"

text \<open>
  \<^verbatim>\<open>create_simulation_volume\<close>, for the list of structures in the order
  \<^verbatim>\<open>priority_sorted_structures\<close> yields them: the loop from the initial state. The
  method returns \<open>volumes\<close> and saves \<open>structures_filling\<close>; the result here is the
  whole final state, which holds both.
\<close>

definition create_simulation_volume ::
  "settings \<Rightarrow> data_field list \<Rightarrow> Structure list \<Rightarrow> error + pass_state" where
  "create_simulation_volume cfg keys structures =
     process_structures cfg structures (initial_state cfg keys (length structures))"

text \<open>
  A grid of one voxel (the plane index of line 105 is \<open>int((1 / 2) / 1) = 0\<close>; the
  numbers of the segmentation classes play no part), and a structure with a
  segmentation label, the value 1 for every other field, no \<open>params[5]\<close> and a given
  occupancy array.
\<close>

definition single_voxel_grid :: settings where
  "single_voxel_grid =
     \<lparr> segmentation_classes = \<lparr> ARTERY = 1, VEIN = 2, RANDOM_ARTERY = 3, RANDOM_VEIN = 4 \<rparr>,
       x_dim_px = 1, y_dim_px = 1, z_dim_px = 1, DIM_VOLUME_Y_MM = 1, SPACING_MM = 1 \<rparr>"

definition labelled_structure :: "real \<Rightarrow> real list \<Rightarrow> Structure" where
  "labelled_structure label occupancy =
     \<lparr> properties_for_wavelength =
         (\<lambda>f. if f = DATA_FIELD_SEGMENTATION then Some label else Some 1),
       params = [],
       geometrical_volume = occupancy \<rparr>"

text \<open>All entries of an array lie between 0 and 1.\<close>

definition unit_interval :: "real list \<Rightarrow> bool" where
  "unit_interval xs = (\<forall>v \<in> set xs. 0 \<le> v \<and> v \<le> 1)"

section \<open>Properties of the spectrum\<close>

lemma and_then_simps [simp]:
  "and_then (Inl e) f = Inl e"
  "and_then (Inr x) f = f x"
  by (simp_all add: and_then_def)

lemma and_then_Inr_iff:
  "and_then m f = Inr y \<longleftrightarrow> (\<exists>x. m = Inr x \<and> f x = Inr y)"
  by (cases m) simp_all

lemma fold_min_le: "fold min r (x::real) \<le> x"
proof (induction r arbitrary: x)
  case Nil
  show ?case by simp
next
  case (Cons a r)
  have "fold min r (min a x) \<le> min a x" by (rule Cons.IH)
  also have "\<dots> \<le> x" by simp
  finally show ?case by simp
qed

lemma le_fold_max: "(x::real) \<le> fold max r x"
proof (induction r arbitrary: x)
  case Nil
  show ?case by simp
next
  case (Cons a r)
  have "x \<le> max a x" by simp
  also have "\<dots> \<le> fold max r (max a x)" by (rule Cons.IH)
  finally show ?case by simp
qed

lemma py_int_mono: "a \<le> b \<Longrightarrow> py_int a \<le> py_int b"
  unfolding py_int_def
  by (auto simp: floor_mono ceiling_mono intro: order_trans[of "\<lceil>a\<rceil>" 0 "\<lfloor>b\<rfloor>"])

text \<open>What a successful construction leaves in the fields.\<close>

lemma init_fields:
  assumes "AbsorptionSpectrum_init name wls ab = Inr sp"
  shows "min_wavelength sp \<le> max_wavelength sp"
    and "new_absorptions sp =
           map (\<lambda>w. np_interp1 (real_of_int w) wls ab) [min_wavelength sp .. max_wavelength sp]"
    and "wavelengths sp = wls"
    and "absorption_per_centimeter sp = ab"
    and "spectrum_name sp = name"
proof -
  from assms obtain x r where wls: "wls = x # r"
    and sp: "sp = \<lparr> spectrum_name = name, wavelengths = wls,
                 max_wavelength = py_int (fold max r x), min_wavelength = py_int (fold min r x),
                 absorption_per_centimeter = ab,
                 new_wavelengths = [py_int (fold min r x) .. py_int (fold max r x)],
                 new_absorptions =
                   np_interp (map real_of_int [py_int (fold min r x) .. py_int (fold max r x)])
                     wls ab \<rparr>"
    unfolding AbsorptionSpectrum_init_def np_max_def np_min_def
    by (auto split: list.splits if_splits simp: Let_def)
  have "fold min r x \<le> fold max r x"
    using fold_min_le[of r x] le_fold_max[of x r] by linarith
  then show "min_wavelength sp \<le> max_wavelength sp"
    by (simp add: sp py_int_mono)
  show "new_absorptions sp =
           map (\<lambda>w. np_interp1 (real_of_int w) wls ab) [min_wavelength sp .. max_wavelength sp]"
    by (simp add: sp np_interp_def comp_def)
  show "wavelengths sp = wls" "absorption_per_centimeter sp = ab" "spectrum_name sp = name"
    by (simp_all add: sp)
qed

lemma table_length:
  assumes "AbsorptionSpectrum_init name wls ab = Inr sp"
  shows "int (length (new_absorptions sp)) = max_wavelength sp - min_wavelength sp + 1"
  using init_fields(1,2)[OF assms] by simp

lemma get_in_range:
  assumes "AbsorptionSpectrum_init name wls ab = Inr sp"
    and "min_wavelength sp \<le> w" "w \<le> max_wavelength sp"
  shows "get_absorption_for_wavelength sp w = Inr (np_interp1 (real_of_int w) wls ab)"
  using assms(2,3) init_fields(2)[OF assms(1)]
  by (simp add: get_absorption_for_wavelength_def np_getitem_def np_index_def nth_upto)

text \<open>The lookup on all integers: in range, wrapped from below, or out of range.\<close>

lemma get_characterisation:
  assumes "AbsorptionSpectrum_init name wls ab = Inr sp"
  shows "get_absorption_for_wavelength sp w =
    (if min_wavelength sp \<le> w \<and> w \<le> max_wavelength sp
       then Inr (np_interp1 (real_of_int w) wls ab)
     else if 2 * min_wavelength sp - max_wavelength sp - 1 \<le> w \<and> w < min_wavelength sp
       then Inr (np_interp1 (real_of_int (w + (max_wavelength sp - min_wavelength sp + 1))) wls ab)
     else Inl IndexError)"
  using init_fields(1,2)[OF assms]
  by (auto simp add: get_absorption_for_wavelength_def np_getitem_def np_index_def nth_upto
        algebra_simps)

lemma interp_const: "450 \<le> x \<Longrightarrow> x \<le> 1000 \<Longrightarrow> np_interp1 x [450, 1000] [c, c] = c"
  by (simp add: np_interp1_def)

lemma two_point_init:
  "\<exists>sp. AbsorptionSpectrum_init name [450, 1000] [c, d] = Inr sp \<and>
        min_wavelength sp = 450 \<and> max_wavelength sp = 1000"
  by (simp add: AbsorptionSpectrum_init_def np_max_def np_min_def py_int_def Let_def
        del: upto_rec_numeral)

lemma init_900:
  "\<exists>sp. AbsorptionSpectrum_init ''Constant Absorber (1)'' [900, 1000] [1, 1] = Inr sp \<and>
        min_wavelength sp = 900 \<and> max_wavelength sp = 1000"
  by (simp add: AbsorptionSpectrum_init_def np_max_def np_min_def py_int_def Let_def
        del: upto_rec_numeral)

text \<open>
  Claim C6. For every constant \<open>c\<close>, the construction of a spectrum from the
  wavelengths \<open>[450, 1000]\<close> and the values \<open>[c, c]\<close> succeeds, and
  \<open>get_absorption_for_wavelength\<close> returns exactly \<open>c\<close> for every integer
  wavelength from 450 to 1000.
\<close>

theorem constant_spectrum_lookup:
  "\<exists>sp. AbsorptionSpectrum_init name [450, 1000] [c, c] = Inr sp \<and>
     (\<forall>w. 450 \<le> w \<and> w \<le> 1000 \<longrightarrow> get_absorption_for_wavelength sp w = Inr c)"
proof -
  obtain sp where sp: "AbsorptionSpectrum_init name [450, 1000] [c, c] = Inr sp"
      "min_wavelength sp = 450" "max_wavelength sp = 1000"
    using two_point_init by blast
  have "get_absorption_for_wavelength sp w = Inr c" if "450 \<le> w" "w \<le> 1000" for w
    using get_in_range[OF sp(1), of w] that sp(2,3) by (simp add: interp_const)
  with sp(1) show ?thesis by blast
qed

theorem constant_spectrum_lookup_witness:
  "\<exists>sp. AbsorptionSpectrum_init ''Constant Absorber (1)'' [450, 1000] [1, 1] = Inr sp \<and>
     get_absorption_for_wavelength sp 450 = Inr 1 \<and>
     get_absorption_for_wavelength sp 700 = Inr 1 \<and>
     get_absorption_for_wavelength sp 1000 = Inr 1"
proof -
  from constant_spectrum_lookup[of "''Constant Absorber (1)''" 1]
  obtain sp where "AbsorptionSpectrum_init ''Constant Absorber (1)'' [450, 1000] [1, 1] = Inr sp"
    and "\<forall>w. 450 \<le> w \<and> w \<le> 1000 \<longrightarrow> get_absorption_for_wavelength sp w = Inr 1"
    by blast
  then show ?thesis by simp
qed

text \<open>
  Claim C9, as amended. Let \<open>L = max_wavelength - min_wavelength + 1\<close>, the length of
  the table of a constructed spectrum. For an integer wavelength \<open>w\<close> with
  \<open>min_wavelength - L \<le> w < min_wavelength\<close> the lookup raises nothing: it returns the
  resampled value of the wavelength \<open>w + L\<close>. The lookup raises IndexError exactly when
  \<open>w > max_wavelength\<close> or \<open>w < min_wavelength - L\<close>.
\<close>

theorem lookup_below_min_wraps:
  assumes "AbsorptionSpectrum_init name wls ab = Inr sp"
    and "L = max_wavelength sp - min_wavelength sp + 1"
  shows "int (length (new_absorptions sp)) = L \<and>
         (min_wavelength sp - L \<le> w \<and> w < min_wavelength sp \<longrightarrow>
            get_absorption_for_wavelength sp w = get_absorption_for_wavelength sp (w + L) \<and>
            get_absorption_for_wavelength sp w = Inr (np_interp1 (real_of_int (w + L)) wls ab)) \<and>
         ((\<exists>e. get_absorption_for_wavelength sp w = Inl e) \<longleftrightarrow>
            (max_wavelength sp < w \<or> w < min_wavelength sp - L))"
proof -
  note ch = get_characterisation[OF assms(1)]
  have "min_wavelength sp - L \<le> w \<and> w < min_wavelength sp \<longrightarrow>
           get_absorption_for_wavelength sp w = get_absorption_for_wavelength sp (w + L) \<and>
           get_absorption_for_wavelength sp w = Inr (np_interp1 (real_of_int (w + L)) wls ab)"
    unfolding ch[of w] ch[of "w + L"] using assms(2) by auto
  moreover have "(\<exists>e. get_absorption_for_wavelength sp w = Inl e) \<longleftrightarrow>
           (max_wavelength sp < w \<or> w < min_wavelength sp - L)"
    unfolding ch[of w] using assms(2) init_fields(1)[OF assms(1)] by auto
  moreover have "int (length (new_absorptions sp)) = L"
    using table_length[OF assms(1)] assms(2) by simp
  ultimately show ?thesis by blast
qed

theorem lookup_below_min_wraps_witness:
  "(case AbsorptionSpectrum_init ''Constant Absorber (1)'' [900, 1000] [1, 1] of
      Inl e \<Rightarrow> False
    | Inr sp \<Rightarrow>
        length (new_absorptions sp) = 101 \<and>
        get_absorption_for_wavelength sp 850 = get_absorption_for_wavelength sp 951 \<and>
        get_absorption_for_wavelength sp 850 = Inr 1 \<and>
        (\<exists>e. get_absorption_for_wavelength sp 1001 = Inl e) \<and>
        (\<exists>e. get_absorption_for_wavelength sp 798 = Inl e))"
proof -
  obtain sp where sp: "AbsorptionSpectrum_init ''Constant Absorber (1)'' [900, 1000] [1, 1] = Inr sp"
    "min_wavelength sp = 900" "max_wavelength sp = 1000"
    using init_900 by blast
  have L: "(101::int) = max_wavelength sp - min_wavelength sp + 1"
    using sp(2,3) by simp
  have i: "np_interp1 951 [900, 1000] [1, 1] = 1"
    by (simp add: np_interp1_def)
  have "get_absorption_for_wavelength sp 850 = get_absorption_for_wavelength sp 951 \<and>
    get_absorption_for_wavelength sp 850 = Inr 1"
    using lookup_below_min_wraps[OF sp(1) L, of 850] sp(2,3) i by auto
  moreover have "\<exists>e. get_absorption_for_wavelength sp 1001 = Inl e"
    using lookup_below_min_wraps[OF sp(1) L, of 1001] sp(2,3) by simp
  moreover have "\<exists>e. get_absorption_for_wavelength sp 798 = Inl e"
    using lookup_below_min_wraps[OF sp(1) L, of 798] sp(2,3) by simp
  moreover have "length (new_absorptions sp) = 101"
    using lookup_below_min_wraps[OF sp(1) L, of 0] by simp
  ultimately show ?thesis using sp(1) by auto
qed

text \<open>
  The claim as stated says that only wavelengths above \<open>max_wavelength\<close> fail. For the
  spectrum over \<open>[900, 1000]\<close> the wavelength 700 lies below the maximum and more than
  a table length below the minimum, and the lookup raises IndexError.
\<close>

theorem lookup_far_below_min_counterexample:
  "(case AbsorptionSpectrum_init ''Constant Absorber (1)'' [900, 1000] [1, 1] of
      Inl e \<Rightarrow> False
    | Inr sp \<Rightarrow> max_wavelength sp = 1000 \<and> min_wavelength sp = 900 \<and>
        get_absorption_for_wavelength sp 700 = Inl IndexError)"
proof -
  obtain sp where sp: "AbsorptionSpectrum_init ''Constant Absorber (1)'' [900, 1000] [1, 1] = Inr sp"
    "min_wavelength sp = 900" "max_wavelength sp = 1000"
    using init_900 by blast
  have "get_absorption_for_wavelength sp 700 = Inl IndexError"
    using get_characterisation[OF sp(1), of 700] sp(2,3) by simp
  with sp show ?thesis by simp
qed

text \<open>
  Whatever the two spectra are, the value \<open>__eq__\<close> returns for them is a tuple of
  three components, which Python takes for true.
\<close>

lemma eq_of_spectra_is_true: "py_bool (AbsorptionSpectrum_eq a (PySpectrum b))"
  by (simp add: py_bool_def AbsorptionSpectrum_eq_def)

text \<open>
  Claim C7 says that the comparison of two spectra is true exactly when the names and
  the raw arrays are equal. The two spectra below differ in the name and in the
  absorption values; \<open>__eq__\<close> gives the tuple
  \<open>(False, [True, True], [False, False])\<close>, and the comparison is true.
\<close>

theorem spectrum_eq_different_spectra:
  "(case (AbsorptionSpectrum_init ''Water'' [450, 1000] [1, 1],
          AbsorptionSpectrum_init ''Fat'' [450, 1000] [2, 2]) of
      (Inr a, Inr b) \<Rightarrow>
         AbsorptionSpectrum_eq a (PySpectrum b) =
           PyTuple3 False (ArrayB [True, True]) (ArrayB [False, False]) \<and>
         py_bool (AbsorptionSpectrum_eq a (PySpectrum b))
    | _ \<Rightarrow> False)"
proof -
  obtain a where a: "AbsorptionSpectrum_init ''Water'' [450, 1000] [1, 1] = Inr a"
    using two_point_init by blast
  obtain b where b: "AbsorptionSpectrum_init ''Fat'' [450, 1000] [2, 2] = Inr b"
    using two_point_init by blast
  have "AbsorptionSpectrum_eq a (PySpectrum b) =
           PyTuple3 False (ArrayB [True, True]) (ArrayB [False, False])"
    using init_fields(3,4,5)[OF a] init_fields(3,4,5)[OF b]
    by (simp add: AbsorptionSpectrum_eq_def np_eq_def)
  then show ?thesis using a b by (simp add: py_bool_def)
qed

section \<open>Properties of the molecule and the composition\<close>

lemma CONSTANT_ABSORBER_ZERO_init:
  "AbsorptionSpectrum_init ''Constant Absorber (0)'' [450, 1000] [1 / 10 ^ 10, 1 / 10 ^ 10] =
     Inr CONSTANT_ABSORBER_ZERO"
proof -
  obtain sp where "AbsorptionSpectrum_init ''Constant Absorber (0)'' [450, 1000] [1 / 10 ^ 10, 1 / 10 ^ 10] = Inr sp"
    using two_point_init by blast
  then show ?thesis by (simp add: CONSTANT_ABSORBER_ZERO_def)
qed

lemma float_or_default_cases:
  "float_or_default field dflt arg =
     (if float_or_unset arg then Inr (float_value dflt arg)
      else Inl (TypeError (''The given '' @ field @ '' was not of type float!'')))"
  by (simp add: float_or_default_def float_or_unset_def float_value_def
        split: option.splits py_object.splits)

lemma spectrum_or_default_cases:
  "spectrum_or_default arg =
     (if spectrum_or_unset arg then Inr (spectrum_value arg)
      else Inl (TypeError ''The given spectrum was not of type AbsorptionSpectrum!''))"
  by (simp add: spectrum_or_default_def spectrum_or_unset_def spectrum_value_def
        split: option.splits py_object.splits)

text \<open>
  Claim C8, as amended. \<^verbatim>\<open>Molecule.__init__\<close> raises a TypeError exactly when the
  spectrum is given and is not an AbsorptionSpectrum, or one of the nine numeric
  fields is given and is not a Python float (an integer is refused as well). Otherwise
  the construction succeeds: a field that is given holds the given float, a field left
  out holds its default (the spectrum CONSTANT_ABSORBER_ZERO, \<open>volume_fraction\<close> 0,
  \<open>mus500\<close> \<open>1e-20\<close>, \<open>gruneisen_parameter\<close> 1, and 0 for the others).
\<close>

theorem Molecule_init_accepts_floats_only:
  "(if spectrum_or_unset sp \<and> float_or_unset vf \<and> float_or_unset mu \<and> float_or_unset fr \<and>
       float_or_unset bm \<and> float_or_unset an \<and> float_or_unset gr \<and> float_or_unset de \<and>
       float_or_unset sos \<and> float_or_unset al
    then Molecule_init sp vf mu fr bm an gr de sos al =
           Inr \<lparr> spectrum = spectrum_value sp,
                 volume_fraction = float_value 0 vf,
                 mus500 = float_value (1 / 10 ^ 20) mu,
                 f_ray = float_value 0 fr,
                 b_mie = float_value 0 bm,
                 anisotropy = float_value 0 an,
                 gruneisen_parameter = float_value 1 gr,
                 density = float_value 0 de,
                 speed_of_sound = float_value 0 sos,
                 alpha_coefficient = float_value 0 al \<rparr>
    else (\<exists>msg. Molecule_init sp vf mu fr bm an gr de sos al = Inl (TypeError msg)))"
  unfolding Molecule_init_def float_or_default_cases spectrum_or_default_cases
  by simp

theorem Molecule_init_accepts_floats_only_witness:
  "Molecule_init None (Some (PyFloat (1 / 2))) None None None (Some (PyFloat (9 / 10)))
       None None None None =
     Inr \<lparr> spectrum = CONSTANT_ABSORBER_ZERO, volume_fraction = 1 / 2, mus500 = 1 / 10 ^ 20,
           f_ray = 0, b_mie = 0, anisotropy = 9 / 10, gruneisen_parameter = 1, density = 0,
           speed_of_sound = 0, alpha_coefficient = 0 \<rparr> \<and>
   (\<exists>msg. Molecule_init None (Some (PyStr ''half'')) None None None None None None None None =
       Inl (TypeError msg))"
proof -
  have "Molecule_init None (Some (PyFloat (1 / 2))) None None None (Some (PyFloat (9 / 10)))
       None None None None =
     Inr \<lparr> spectrum = CONSTANT_ABSORBER_ZERO, volume_fraction = 1 / 2, mus500 = 1 / 10 ^ 20,
           f_ray = 0, b_mie = 0, anisotropy = 9 / 10, gruneisen_parameter = 1, density = 0,
           speed_of_sound = 0, alpha_coefficient = 0 \<rparr>"
    using Molecule_init_accepts_floats_only[of None "Some (PyFloat (1 / 2))" None None None
        "Some (PyFloat (9 / 10))" None None None None]
    by (simp add: float_or_unset_def spectrum_or_unset_def float_value_def spectrum_value_def)
  moreover have "\<exists>msg. Molecule_init None (Some (PyStr ''half'')) None None None None None None None None =
       Inl (TypeError msg)"
    using Molecule_init_accepts_floats_only[of None "Some (PyStr ''half'')" None None None
        None None None None None]
    by (simp add: float_or_unset_def spectrum_or_unset_def)
  ultimately show ?thesis by blast
qed

text \<open>
  The claim as stated lets every numeric field value through. The integer 1 is
  numeric; given as \<open>volume_fraction\<close> it makes the construction raise the TypeError
  of the float test.
\<close>

theorem Molecule_init_int_counterexample:
  "Molecule_init None (Some (PyInt 1)) None None None None None None None None =
     Inl (TypeError ''The given volume_fraction was not of type float!'')"
  by (simp add: Molecule_init_def float_or_default_def spectrum_or_default_def)

lemma fold_add_molecule:
  "tp_volume_fraction (fold add_molecule ms p) =
     tp_volume_fraction p + sum_list (map volume_fraction ms)"
  "PROPERTY_ANISOTROPY (fold add_molecule ms p) =
     PROPERTY_ANISOTROPY p + sum_list (map (\<lambda>m. volume_fraction m * anisotropy m) ms)"
  "PROPERTY_GRUNEISEN_PARAMETER (fold add_molecule ms p) =
     PROPERTY_GRUNEISEN_PARAMETER p +
       sum_list (map (\<lambda>m. volume_fraction m * gruneisen_parameter m) ms)"
  "PROPERTY_DENSITY (fold add_molecule ms p) =
     PROPERTY_DENSITY p + sum_list (map (\<lambda>m. volume_fraction m * density m) ms)"
  "PROPERTY_SPEED_OF_SOUND (fold add_molecule ms p) =
     PROPERTY_SPEED_OF_SOUND p + sum_list (map (\<lambda>m. volume_fraction m * speed_of_sound m) ms)"
  "PROPERTY_ALPHA_COEFF (fold add_molecule ms p) =
     PROPERTY_ALPHA_COEFF p + sum_list (map (\<lambda>m. volume_fraction m * alpha_coefficient m) ms)"
  by (induction ms arbitrary: p; simp add: add_molecule_def)+

lemma fold_add_molecule_frame:
  "PROPERTY_SEGMENTATION (fold add_molecule ms p) = PROPERTY_SEGMENTATION p"
  "PROPERTY_OXYGENATION (fold add_molecule ms p) = PROPERTY_OXYGENATION p"
  by (induction ms arbitrary: p; simp add: add_molecule_def)+

text \<open>
  Claim C4. After \<^verbatim>\<open>update_internal_properties\<close> the object the composition refers to
  holds, for the volume fraction, the sum of the molecules' volume fractions, and for
  each of the Grueneisen parameter, the density, the speed of sound and the alpha
  coefficient the sum over the molecules of volume fraction times the molecule's
  value, whatever the summed fraction is; the anisotropy is that same kind of sum,
  divided by the summed volume fraction when the summed fraction is above 1.
\<close>

theorem update_internal_properties_sums:
  "(let (self', h') = update_internal_properties calculate_oxygenation self h;
        p = objs h' (internal_properties self');
        total = sum_list (map volume_fraction (molecules self))
    in tp_volume_fraction p = total \<and>
       PROPERTY_GRUNEISEN_PARAMETER p =
         sum_list (map (\<lambda>m. volume_fraction m * gruneisen_parameter m) (molecules self)) \<and>
       PROPERTY_DENSITY p =
         sum_list (map (\<lambda>m. volume_fraction m * density m) (molecules self)) \<and>
       PROPERTY_SPEED_OF_SOUND p =
         sum_list (map (\<lambda>m. volume_fraction m * speed_of_sound m) (molecules self)) \<and>
       PROPERTY_ALPHA_COEFF p =
         sum_list (map (\<lambda>m. volume_fraction m * alpha_coefficient m) (molecules self)) \<and>
       PROPERTY_ANISOTROPY p =
         (if 1 < total
          then sum_list (map (\<lambda>m. volume_fraction m * anisotropy m) (molecules self)) / total
          else sum_list (map (\<lambda>m. volume_fraction m * anisotropy m) (molecules self))))"
  by (simp add: update_internal_properties_def new_TissueProperties_def Let_def
        fold_add_molecule TissueProperties_init_def)


lemma np_index_less: "np_index k w = Inr i \<Longrightarrow> i < k"
  by (auto simp: np_index_def split: if_splits)

lemma np_getitem_Inr:
  "np_getitem xs w = Inr v \<longleftrightarrow> (\<exists>i. np_index (length xs) w = Inr i \<and> v = xs ! i)"
  by (cases "np_index (length xs) w") (auto simp: np_getitem_def)

lemma np_getitem_update:
  "np_index (length xs) w = Inr i \<Longrightarrow> np_getitem (xs[i := v]) w = Inr v"
  by (simp add: np_getitem_def np_index_less)

lemma set_absorption_scattering_same:
  "set_absorption_scattering a x y (set_absorption_scattering a x y h) =
     set_absorption_scattering a x y h"
  by (simp add: set_absorption_scattering_def)

lemma set_absorption_scattering_reads:
  "PROPERTY_ABSORPTION_PER_CM (objs (set_absorption_scattering a x y h) a) = x"
  "PROPERTY_SCATTERING_PER_CM (objs (set_absorption_scattering a x y h) a) = y"
  "b \<noteq> a \<Longrightarrow> objs (set_absorption_scattering a x y h) b = objs h b"
  by (simp_all add: set_absorption_scattering_def)

text \<open>The two ways a call can return.\<close>

lemma get_properties_cases:
  assumes "get_properties_for_wavelength self w h = Inr (r, self1, h1)"
  obtains (hit) i j where
      "np_index (length (cached_absorption self)) w = Inr i"
      "np_index (length (cached_scattering self)) w = Inr j"
      "cached_absorption self ! i \<noteq> - 1"
      "r = internal_properties self" "self1 = self"
      "h1 = set_absorption_scattering r (cached_absorption self ! i) (cached_scattering self ! j) h"
    | (miss) i j mua mus where
      "np_index (length (cached_absorption self)) w = Inr i"
      "np_index (length (cached_scattering self)) w = Inr j"
      "cached_absorption self ! i = - 1"
      "sum_molecules (molecules self) w 0 0 = Inr (mua, mus)"
      "r = internal_properties self"
      "self1 = self\<lparr> cached_absorption := (cached_absorption self)[i := mua],
                      cached_scattering := (cached_scattering self)[j := mus] \<rparr>"
      "h1 = set_absorption_scattering r mua mus h"
proof -
  from assms obtain c where c: "np_getitem (cached_absorption self) w = Inr c"
    and rest: "(if c \<noteq> - 1 then read_cached self w h else compute_and_cache self w h) =
                 Inr (r, self1, h1)"
    by (auto simp: get_properties_for_wavelength_def and_then_Inr_iff)
  from c obtain i where i: "np_index (length (cached_absorption self)) w = Inr i"
    and ci: "c = cached_absorption self ! i"
    by (auto simp: np_getitem_Inr)
  show thesis
  proof (cases "c = - 1")
    case False
    with rest have "read_cached self w h = Inr (r, self1, h1)" by simp
    then obtain j where "np_index (length (cached_scattering self)) w = Inr j"
      "r = internal_properties self" "self1 = self"
      "h1 = set_absorption_scattering r (cached_absorption self ! i) (cached_scattering self ! j) h"
      using i by (auto simp: read_cached_def and_then_Inr_iff np_getitem_Inr)
    with i False ci show thesis by (intro hit) auto
  next
    case True
    with rest have "compute_and_cache self w h = Inr (r, self1, h1)" by simp
    then obtain j mua mus where "np_index (length (cached_scattering self)) w = Inr j"
      "sum_molecules (molecules self) w 0 0 = Inr (mua, mus)"
      "r = internal_properties self"
      "self1 = self\<lparr> cached_absorption := (cached_absorption self)[i := mua],
                      cached_scattering := (cached_scattering self)[j := mus] \<rparr>"
      "h1 = set_absorption_scattering r mua mus h"
      using i by (auto simp: compute_and_cache_def and_then_Inr_iff)
    with i True ci show thesis by (intro miss) auto
  qed
qed

text \<open>After a call that returned, the object and the two cache slots agree.\<close>

lemma get_properties_result:
  assumes "get_properties_for_wavelength self w h = Inr (r, self1, h1)"
  shows "r = internal_properties self"
    and "internal_properties self1 = internal_properties self"
    and "molecules self1 = molecules self"
    and "np_getitem (cached_absorption self1) w = Inr (PROPERTY_ABSORPTION_PER_CM (objs h1 r))"
    and "np_getitem (cached_scattering self1) w = Inr (PROPERTY_SCATTERING_PER_CM (objs h1 r))"
    and "\<forall>b. b \<noteq> r \<longrightarrow> objs h1 b = objs h b"
  using assms
  by (cases rule: get_properties_cases;
      simp add: set_absorption_scattering_reads np_getitem_update np_getitem_Inr)+

text \<open>
  A call returns whenever the wavelength indexes both caches and, in case the slot is
  empty, the sums over the molecules can be computed.
\<close>

lemma get_properties_returns:
  assumes "np_index (length (cached_absorption self)) w = Inr i"
    and "np_index (length (cached_scattering self)) w = Inr j"
    and "cached_absorption self ! i = - 1 \<Longrightarrow>
           \<exists>mua mus. sum_molecules (molecules self) w 0 0 = Inr (mua, mus)"
  shows "\<exists>r self1 h1. get_properties_for_wavelength self w h = Inr (r, self1, h1)"
proof (cases "cached_absorption self ! i = - 1")
  case True
  with assms(3) obtain mua mus where "sum_molecules (molecules self) w 0 0 = Inr (mua, mus)"
    by blast
  with True assms(1,2) show ?thesis
    by (simp add: get_properties_for_wavelength_def np_getitem_def compute_and_cache_def)
next
  case False
  with assms(1,2) show ?thesis
    by (simp add: get_properties_for_wavelength_def np_getitem_def read_cached_def)
qed

text \<open>The counter changes no result: the counted method returns what the method returns.\<close>

lemma sum_molecules_counted_eq:
  "sum_molecules_counted ms w mua mus k =
     and_then (sum_molecules ms w mua mus) (\<lambda>(a, s). Inr (a, s, k + length ms))"
proof (induction ms arbitrary: mua mus k)
  case Nil
  show ?case by simp
next
  case (Cons m ms)
  show ?case
  proof (cases "get_absorption_for_wavelength (spectrum m) w")
    case (Inl e)
    then show ?thesis by simp
  next
    case a: (Inr a)
    show ?thesis
    proof (cases "scattering_of m w")
      case (Inl e)
      with a show ?thesis by simp
    next
      case (Inr s)
      with a show ?thesis by (simp add: Cons.IH)
    qed
  qed
qed

lemma compute_and_cache_counted_eq:
  "compute_and_cache_counted self w h =
     and_then (compute_and_cache self w h) (\<lambda>result. Inr (result, length (molecules self)))"
proof (cases "sum_molecules (molecules self) w 0 0")
  case (Inl e)
  then show ?thesis
    by (simp add: compute_and_cache_counted_def compute_and_cache_def sum_molecules_counted_eq)
next
  case (Inr p)
  obtain a s where p: "p = (a, s)" by (cases p)
  show ?thesis
  proof (cases "np_index (length (cached_absorption self)) w")
    case (Inl e)
    with Inr p show ?thesis
      by (simp add: compute_and_cache_counted_def compute_and_cache_def sum_molecules_counted_eq)
  next
    case i: (Inr i)
    show ?thesis
    proof (cases "np_index (length (cached_scattering self)) w")
      case (Inl e)
      with Inr p i show ?thesis
        by (simp add: compute_and_cache_counted_def compute_and_cache_def
            sum_molecules_counted_eq)
    next
      case j: (Inr j)
      with Inr p i show ?thesis
        by (simp add: compute_and_cache_counted_def compute_and_cache_def
            sum_molecules_counted_eq)
    qed
  qed
qed

lemma counted_agrees:
  "and_then (get_properties_for_wavelength_counted self w h) (\<lambda>(result, k). Inr result) =
     get_properties_for_wavelength self w h"
proof (cases "np_getitem (cached_absorption self) w")
  case (Inl e)
  then show ?thesis
    by (simp add: get_properties_for_wavelength_counted_def get_properties_for_wavelength_def)
next
  case (Inr c)
  show ?thesis
  proof (cases "c = - 1")
    case True
    with Inr show ?thesis
      by (cases "compute_and_cache self w h")
         (simp_all add: get_properties_for_wavelength_counted_def
            get_properties_for_wavelength_def compute_and_cache_counted_eq)
  next
    case False
    with Inr show ?thesis
      by (cases "read_cached self w h")
         (simp_all add: get_properties_for_wavelength_counted_def
            get_properties_for_wavelength_def)
  qed
qed

lemma counted_Inr:
  assumes "get_properties_for_wavelength_counted self w h = Inr (result, k)"
  shows "get_properties_for_wavelength self w h = Inr result"
  using counted_agrees[of self w h] by (simp add: assms)

text \<open>
  Claim C5, as amended. When a call of \<^verbatim>\<open>get_properties_for_wavelength\<close> returns and
  the absorption it reports is not the sentinel -1, a second call with the same
  wavelength (the molecule list and the store unchanged in between) returns the same
  object with the same absorption and scattering, leaves composition and store as
  they were, and computes the absorption and scattering of no molecule: its counter is
  0. The two values are those in the two cache slots of that wavelength.
\<close>

theorem second_call_does_not_recompute:
  assumes "get_properties_for_wavelength_counted self w h = Inr ((r, self1, h1), k)"
    and "PROPERTY_ABSORPTION_PER_CM (objs h1 r) \<noteq> - 1"
  shows "get_properties_for_wavelength_counted self1 w h1 = Inr ((r, self1, h1), 0) \<and>
         np_getitem (cached_absorption self1) w = Inr (PROPERTY_ABSORPTION_PER_CM (objs h1 r)) \<and>
         np_getitem (cached_scattering self1) w = Inr (PROPERTY_SCATTERING_PER_CM (objs h1 r))"
proof -
  note res = get_properties_result[OF counted_Inr[OF assms(1)]]
  have "set_absorption_scattering r (PROPERTY_ABSORPTION_PER_CM (objs h1 r))
          (PROPERTY_SCATTERING_PER_CM (objs h1 r)) h1 = h1"
    by (simp add: set_absorption_scattering_def)
  then have rc: "read_cached self1 w h1 = Inr (r, self1, h1)"
    using res(1,2,4,5) by (simp add: read_cached_def)
  have "get_properties_for_wavelength_counted self1 w h1 = Inr ((r, self1, h1), 0)"
    using res(4) assms(2) rc by (simp add: get_properties_for_wavelength_counted_def)
  with res(4,5) show ?thesis by simp
qed

text \<open>
  Claim C10. \<^verbatim>\<open>get_properties_for_wavelength\<close> returns the address of the
  composition's own \<open>internal_properties\<close> object, and two calls in a row return the
  same address. After the second call, for the wavelength \<open>w2\<close>, the object got from
  the first call holds the absorption and scattering cached for \<open>w2\<close>; where these
  differ from what the first call reported for \<open>w1\<close>, the object no longer reports the
  values of \<open>w1\<close>.
\<close>

theorem returned_record_is_shared:
  assumes "get_properties_for_wavelength self w1 h = Inr (r1, self1, h1)"
    and "get_properties_for_wavelength self1 w2 h1 = Inr (r2, self2, h2)"
  shows "r1 = internal_properties self \<and> r2 = r1 \<and>
         np_getitem (cached_absorption self2) w2 = Inr (PROPERTY_ABSORPTION_PER_CM (objs h2 r1)) \<and>
         np_getitem (cached_scattering self2) w2 = Inr (PROPERTY_SCATTERING_PER_CM (objs h2 r1)) \<and>
         (PROPERTY_ABSORPTION_PER_CM (objs h2 r2) \<noteq> PROPERTY_ABSORPTION_PER_CM (objs h1 r1) \<longrightarrow>
            PROPERTY_ABSORPTION_PER_CM (objs h2 r1) \<noteq> PROPERTY_ABSORPTION_PER_CM (objs h1 r1)) \<and>
         (PROPERTY_SCATTERING_PER_CM (objs h2 r2) \<noteq> PROPERTY_SCATTERING_PER_CM (objs h1 r1) \<longrightarrow>
            PROPERTY_SCATTERING_PER_CM (objs h2 r1) \<noteq> PROPERTY_SCATTERING_PER_CM (objs h1 r1))"
proof -
  note a = get_properties_result[OF assms(1)]
  note b = get_properties_result[OF assms(2)]
  have "r2 = r1" using a(1,2) b(1) by simp
  with a(1) b(4,5) show ?thesis by simp
qed


lemma absorber_composition_fields:
  assumes "absorber_composition sp vf = (c, h)"
  shows "molecules c = [absorber sp vf]"
    and "cached_absorption c = replicate 5000 (- 1)"
    and "cached_scattering c = replicate 5000 (- 1)"
    and "internal_properties c = 0"
  using assms
  by (auto simp: absorber_composition_def MolecularComposition_init_def new_TissueProperties_def
        empty_store_def)

lemma fresh_call:
  assumes "cached_absorption c = replicate 5000 (- 1)"
    and "cached_scattering c = replicate 5000 (- 1)"
    and "0 \<le> w" "w < 5000"
    and "sum_molecules (molecules c) w 0 0 = Inr (a, s)"
  shows "get_properties_for_wavelength c w h =
           Inr (internal_properties c,
                c\<lparr> cached_absorption := (cached_absorption c)[nat w := a],
                   cached_scattering := (cached_scattering c)[nat w := s] \<rparr>,
                set_absorption_scattering (internal_properties c) a s h)"
  using assms
  by (simp add: get_properties_for_wavelength_def np_getitem_def np_index_def
        compute_and_cache_def)

lemma absorber_sum:
  assumes "get_absorption_for_wavelength sp w = Inr a" and "0 < w"
  shows "sum_molecules [absorber sp vf] w 0 0 = Inr (vf * a, 0)"
  using assms by (simp add: absorber_def scattering_of_def py_pow_def)

lemma fresh_call_counted:
  assumes "cached_absorption c = replicate 5000 (- 1)"
    and "cached_scattering c = replicate 5000 (- 1)"
    and "0 \<le> w" "w < 5000"
    and "sum_molecules (molecules c) w 0 0 = Inr (a, s)"
  shows "get_properties_for_wavelength_counted c w h =
           Inr ((internal_properties c,
                 c\<lparr> cached_absorption := (cached_absorption c)[nat w := a],
                    cached_scattering := (cached_scattering c)[nat w := s] \<rparr>,
                 set_absorption_scattering (internal_properties c) a s h),
                length (molecules c))"
  using assms
  by (simp add: get_properties_for_wavelength_counted_def np_getitem_def np_index_def
        compute_and_cache_counted_eq compute_and_cache_def)

lemma minus_one_init:
  "\<exists>sp. AbsorptionSpectrum_init ''Constant Absorber (1)'' [450, 1000] [- 1, - 1] = Inr sp \<and>
        min_wavelength sp = 450 \<and> max_wavelength sp = 1000"
  using two_point_init by blast

theorem second_call_does_not_recompute_witness:
  "(case AbsorptionSpectrum_init ''Constant Absorber (1)'' [450, 1000] [1, 1] of
      Inl e \<Rightarrow> False
    | Inr sp \<Rightarrow>
        (case absorber_composition sp (1 / 2) of
           (c, h) \<Rightarrow>
             (case get_properties_for_wavelength_counted c 500 h of
                Inl e \<Rightarrow> False
              | Inr ((r, c1, h1), k) \<Rightarrow>
                  k = 1 \<and>
                  PROPERTY_ABSORPTION_PER_CM (objs h1 r) = 1 / 2 \<and>
                  get_properties_for_wavelength_counted c1 500 h1 = Inr ((r, c1, h1), 0) \<and>
                  np_getitem (cached_absorption c1) 500 = Inr (1 / 2))))"
proof -
  obtain sp where sp: "AbsorptionSpectrum_init ''Constant Absorber (1)'' [450, 1000] [1, 1] = Inr sp"
    "min_wavelength sp = 450" "max_wavelength sp = 1000"
    using two_point_init by blast
  obtain c h where ch: "absorber_composition sp (1 / 2) = (c, h)"
    by (cases "absorber_composition sp (1 / 2)")
  note f = absorber_composition_fields[OF ch]
  have "get_absorption_for_wavelength sp 500 = Inr 1"
    using get_in_range[OF sp(1), of 500] sp(2,3) by (simp add: interp_const)
  then have "sum_molecules (molecules c) 500 0 0 = Inr (1 / 2, 0)"
    using absorber_sum[of sp 500 1 "1 / 2"] f(1) by simp
  from fresh_call_counted[OF f(2,3) _ _ this, of h]
  obtain r c1 h1 where g: "get_properties_for_wavelength_counted c 500 h = Inr ((r, c1, h1), 1)"
    and r: "r = internal_properties c"
    and h1: "h1 = set_absorption_scattering (internal_properties c) (1 / 2) 0 h"
    using f(1) by simp
  have 1: "PROPERTY_ABSORPTION_PER_CM (objs h1 r) = 1 / 2"
    by (simp add: h1 r set_absorption_scattering_reads)
  then have ne: "PROPERTY_ABSORPTION_PER_CM (objs h1 r) \<noteq> - 1" by simp
  from second_call_does_not_recompute[OF g ne] 1 sp(1) ch g show ?thesis by simp
qed

text \<open>
  The claim as stated has every second call return the values without computing
  again, for every composition and every wavelength that indexes the cache. A
  composition of the constant absorber -1 with volume fraction 1 has absorption -1 at
  500 nm: the first call stores -1, which is the sentinel for an empty slot, and the
  second call computes the molecule again (its counter is 1). And for a molecule whose
  spectrum covers 450 to 1000 nm, the wavelength 2000 indexes the cache but not the
  table of the spectrum: the call raises IndexError and returns nothing.
\<close>

theorem second_call_recomputes_counterexample:
  "(case AbsorptionSpectrum_init ''Constant Absorber (1)'' [450, 1000] [- 1, - 1] of
      Inl e \<Rightarrow> False
    | Inr sp \<Rightarrow>
        (case absorber_composition sp 1 of
           (c, h) \<Rightarrow>
             (case get_properties_for_wavelength_counted c 500 h of
                Inl e \<Rightarrow> False
              | Inr ((r, c1, h1), k) \<Rightarrow>
                  k = 1 \<and>
                  PROPERTY_ABSORPTION_PER_CM (objs h1 r) = - 1 \<and>
                  np_getitem (cached_absorption c1) 500 = Inr (- 1) \<and>
                  get_properties_for_wavelength_counted c1 500 h1 = Inr ((r, c1, h1), 1)))) \<and>
   (case AbsorptionSpectrum_init ''Constant Absorber (1)'' [450, 1000] [1, 1] of
      Inl e \<Rightarrow> False
    | Inr sp \<Rightarrow>
        (case absorber_composition sp 1 of
           (c, h) \<Rightarrow>
             get_properties_for_wavelength c 2000 h = Inl IndexError \<and>
             get_properties_for_wavelength_counted c 2000 h = Inl IndexError))"
proof -
  have first: "(case AbsorptionSpectrum_init ''Constant Absorber (1)'' [450, 1000] [- 1, - 1] of
      Inl e \<Rightarrow> False
    | Inr sp \<Rightarrow>
        (case absorber_composition sp 1 of
           (c, h) \<Rightarrow>
             (case get_properties_for_wavelength_counted c 500 h of
                Inl e \<Rightarrow> False
              | Inr ((r, c1, h1), k) \<Rightarrow>
                  k = 1 \<and>
                  PROPERTY_ABSORPTION_PER_CM (objs h1 r) = - 1 \<and>
                  np_getitem (cached_absorption c1) 500 = Inr (- 1) \<and>
                  get_properties_for_wavelength_counted c1 500 h1 = Inr ((r, c1, h1), 1))))"
  proof -
    obtain sp where sp:
      "AbsorptionSpectrum_init ''Constant Absorber (1)'' [450, 1000] [- 1, - 1] = Inr sp"
      "min_wavelength sp = 450" "max_wavelength sp = 1000"
      using minus_one_init by blast
    obtain c h where ch: "absorber_composition sp 1 = (c, h)"
      by (cases "absorber_composition sp 1")
    note f = absorber_composition_fields[OF ch]
    have "get_absorption_for_wavelength sp 500 = Inr (- 1)"
      using get_in_range[OF sp(1), of 500] sp(2,3) by (simp add: interp_const)
    then have sm: "sum_molecules (molecules c) 500 0 0 = Inr (- 1, 0)"
      using absorber_sum[of sp 500 "- 1" 1] f(1) by simp
    from fresh_call_counted[OF f(2,3) _ _ sm, of h]
    obtain r c1 h1 where g: "get_properties_for_wavelength_counted c 500 h = Inr ((r, c1, h1), 1)"
      and r: "r = internal_properties c"
      and c1: "c1 = c\<lparr> cached_absorption := (cached_absorption c)[nat 500 := - 1],
                     cached_scattering := (cached_scattering c)[nat 500 := 0] \<rparr>"
      and h1: "h1 = set_absorption_scattering (internal_properties c) (- 1) 0 h"
      using f(1) by simp
    have 1: "PROPERTY_ABSORPTION_PER_CM (objs h1 r) = - 1"
      "PROPERTY_SCATTERING_PER_CM (objs h1 r) = 0"
      by (simp_all add: h1 r set_absorption_scattering_reads)
    have 2: "np_getitem (cached_absorption c1) 500 = Inr (- 1)"
      using get_properties_result(4)[OF counted_Inr[OF g]] 1 by simp
    have sm1: "sum_molecules (molecules c1) 500 0 0 = Inr (- 1, 0)"
      using sm c1 by simp
    have same: "set_absorption_scattering r (- 1) 0 h1 = h1"
      by (simp add: h1 r set_absorption_scattering_same)
    have upd: "c1\<lparr> cached_absorption := (cached_absorption c1)[500 := - 1],
                 cached_scattering := (cached_scattering c1)[500 := 0] \<rparr> = c1"
      by (simp add: c1)
    have 3: "get_properties_for_wavelength_counted c1 500 h1 = Inr ((r, c1, h1), 1)"
      using 2 sm1 f(1,2,3) c1 same upd r
      by (simp add: get_properties_for_wavelength_counted_def compute_and_cache_counted_eq
          compute_and_cache_def np_index_def)
    show ?thesis using sp(1) ch g 1 2 3 by simp
  qed
  have second: "(case AbsorptionSpectrum_init ''Constant Absorber (1)'' [450, 1000] [1, 1] of
      Inl e \<Rightarrow> False
    | Inr sp \<Rightarrow>
        (case absorber_composition sp 1 of
           (c, h) \<Rightarrow>
             get_properties_for_wavelength c 2000 h = Inl IndexError \<and>
             get_properties_for_wavelength_counted c 2000 h = Inl IndexError))"
  proof -
    obtain sp where sp: "AbsorptionSpectrum_init ''Constant Absorber (1)'' [450, 1000] [1, 1] = Inr sp"
      "min_wavelength sp = 450" "max_wavelength sp = 1000"
      using two_point_init by blast
    obtain c h where ch: "absorber_composition sp 1 = (c, h)"
      by (cases "absorber_composition sp 1")
    note f = absorber_composition_fields[OF ch]
    have ga: "get_absorption_for_wavelength sp 2000 = Inl IndexError"
      using get_characterisation[OF sp(1), of 2000] sp(2,3) by simp
    have sm: "sum_molecules (molecules c) 2000 0 0 = Inl IndexError"
      using ga f(1) by (simp add: absorber_def)
    have a: "get_properties_for_wavelength c 2000 h = Inl IndexError"
      using sm f(2,3)
      by (simp add: get_properties_for_wavelength_def np_getitem_def np_index_def
          compute_and_cache_def)
    have b: "get_properties_for_wavelength_counted c 2000 h = Inl IndexError"
      using sm f(2,3)
      by (simp add: get_properties_for_wavelength_counted_def np_getitem_def np_index_def
          compute_and_cache_counted_eq compute_and_cache_def)
    show ?thesis using sp(1) ch a b by simp
  qed
  from first second show ?thesis by (rule conjI)
qed


lemma ramp_init:
  "\<exists>sp. AbsorptionSpectrum_init ''Ramp'' [450, 1000] [1, 2] = Inr sp \<and>
        min_wavelength sp = 450 \<and> max_wavelength sp = 1000"
  using two_point_init by blast

theorem returned_record_is_shared_witness:
  "(case AbsorptionSpectrum_init ''Ramp'' [450, 1000] [1, 2] of
      Inl e \<Rightarrow> False
    | Inr sp \<Rightarrow>
        (case absorber_composition sp 1 of
           (c, h) \<Rightarrow>
             (case get_properties_for_wavelength c 450 h of
                Inl e \<Rightarrow> False
              | Inr (r1, c1, h1) \<Rightarrow>
                  (case get_properties_for_wavelength c1 1000 h1 of
                     Inl e \<Rightarrow> False
                   | Inr (r2, c2, h2) \<Rightarrow>
                       r2 = r1 \<and>
                       PROPERTY_ABSORPTION_PER_CM (objs h1 r1) = 1 \<and>
                       PROPERTY_ABSORPTION_PER_CM (objs h2 r1) = 2))))"
proof -
  obtain sp where sp: "AbsorptionSpectrum_init ''Ramp'' [450, 1000] [1, 2] = Inr sp"
    "min_wavelength sp = 450" "max_wavelength sp = 1000"
    using ramp_init by blast
  obtain c h where ch: "absorber_composition sp 1 = (c, h)"
    by (cases "absorber_composition sp 1")
  note f = absorber_composition_fields[OF ch]
  have "get_absorption_for_wavelength sp 450 = Inr 1"
    using get_in_range[OF sp(1), of 450] sp(2,3) by (simp add: np_interp1_def)
  then have "sum_molecules (molecules c) 450 0 0 = Inr (1, 0)"
    using absorber_sum[of sp 450 1 1] f(1) by simp
  from fresh_call[OF f(2,3) _ _ this, of h]
  obtain r1 c1 h1 where g1: "get_properties_for_wavelength c 450 h = Inr (r1, c1, h1)"
    and r1: "r1 = internal_properties c"
    and c1: "c1 = c\<lparr> cached_absorption := (cached_absorption c)[nat 450 := 1],
                   cached_scattering := (cached_scattering c)[nat 450 := 0] \<rparr>"
    and h1: "h1 = set_absorption_scattering (internal_properties c) 1 0 h"
    by simp
  have v1: "PROPERTY_ABSORPTION_PER_CM (objs h1 r1) = 1"
    by (simp add: h1 r1 set_absorption_scattering_reads)
  have "get_absorption_for_wavelength sp 1000 = Inr 2"
    using get_in_range[OF sp(1), of 1000] sp(2,3) by (simp add: np_interp1_def)
  then have s2: "sum_molecules (molecules c1) 1000 0 0 = Inr (2, 0)"
    using absorber_sum[of sp 1000 2 1] f(1) c1 by simp
  have "get_properties_for_wavelength c1 1000 h1 =
      Inr (internal_properties c1,
           c1\<lparr> cached_absorption := (cached_absorption c1)[nat 1000 := 2],
               cached_scattering := (cached_scattering c1)[nat 1000 := 0] \<rparr>,
           set_absorption_scattering (internal_properties c1) 2 0 h1)"
    using s2 f(2,3) c1
    by (simp add: get_properties_for_wavelength_def np_getitem_def np_index_def
        compute_and_cache_def)
  then obtain r2 c2 h2 where g2: "get_properties_for_wavelength c1 1000 h1 = Inr (r2, c2, h2)"
    and h2: "h2 = set_absorption_scattering (internal_properties c1) 2 0 h1"
    and r2: "r2 = internal_properties c1"
    by simp
  have v2: "PROPERTY_ABSORPTION_PER_CM (objs h2 r2) = 2"
    by (simp add: h2 r2 set_absorption_scattering_reads)
  from returned_record_is_shared[OF g1 g2] v1 v2
  have "r2 = r1 \<and> PROPERTY_ABSORPTION_PER_CM (objs h2 r1) = 2" by auto
  with sp(1) ch g1 g2 v1 show ?thesis by simp
qed


section \<open>Properties of the compositor pass\<close>

lemma length_masked_assign [simp]:
  "length (masked_assign sel t s) = min (length sel) (min (length t) (length s))"
  by (simp add: masked_assign_def)

lemma masked_assign_nth:
  "i < length sel \<Longrightarrow> i < length t \<Longrightarrow> i < length s \<Longrightarrow>
     masked_assign sel t s ! i = (if sel ! i then s ! i else t ! i)"
  by (simp add: masked_assign_def)

lemma length_mask_of [simp]: "length (mask_of g occ) = min (length occ) (length g)"
  by (simp add: mask_of_def structure_indexes_mask_def global_volume_fractions_mask_def)

lemma mask_of_nth:
  "i < length g \<Longrightarrow> i < length occ \<Longrightarrow> mask_of g occ ! i = (0 < occ ! i \<and> g ! i < 1)"
  by (simp add: mask_of_def structure_indexes_mask_def global_volume_fractions_mask_def)

lemma length_added [simp]:
  "length (added_volume_fraction g occ) = min (length g) (length occ)"
  by (simp add: added_volume_fraction_def Let_def)

text \<open>The added fraction at one voxel.\<close>

lemma added_nth:
  assumes "i < length g" "i < length occ"
  shows "added_volume_fraction g occ ! i =
    (let a0 = g ! i + occ ! i;
         a1 = (if a0 \<le> (if 0 < occ ! i \<and> g ! i < 1 then 1 else 0) then occ ! i else a0)
     in if 1 < a1 then min (1 - g ! i) (occ ! i) else a1)"
proof -
  define added1 where "added1 =
    masked_assign (map2 (\<lambda>a m. a \<le> (if m then 1 else 0)) (map2 (+) g occ) (mask_of g occ))
      (map2 (+) g occ) occ"
  have len1: "length added1 = min (length g) (length occ)"
    by (simp add: added1_def)
  have a1: "added1 ! i =
      (if g ! i + occ ! i \<le> (if 0 < occ ! i \<and> g ! i < 1 then 1 else 0) then occ ! i
       else g ! i + occ ! i)"
    using assms by (simp add: added1_def masked_assign_nth mask_of_nth)
  show ?thesis
  proof (cases "list_ex id (map (\<lambda>a. 1 < a) added1)")
    case True
    then have "added_volume_fraction g occ =
        masked_assign (map (\<lambda>a. 1 < a) added1) added1 (map2 min (map (\<lambda>v. 1 - v) g) occ)"
      by (simp add: added_volume_fraction_def added1_def Let_def)
    then show ?thesis
      using assms len1 a1 by (simp add: masked_assign_nth Let_def)
  next
    case False
    then have eq: "added_volume_fraction g occ = added1"
      by (simp add: added_volume_fraction_def added1_def Let_def)
    from False have "\<not> 1 < added1 ! i"
      using assms len1 by (auto simp: list_ex_iff)
    then show ?thesis
      using a1 by (simp add: eq Let_def)
  qed
qed

text \<open>The global occupancy at one voxel after an iteration.\<close>

lemma global_step_nth:
  assumes "i < length g" "i < length occ"
  shows "masked_assign (mask_of g occ) g (map2 (+) g (added_volume_fraction g occ)) ! i =
     (if 0 < occ ! i \<and> g ! i < 1 then g ! i + added_volume_fraction g occ ! i else g ! i)"
  using assms by (simp add: masked_assign_nth mask_of_nth)

lemma global_step_bounded:
  assumes "i < length g" "i < length occ"
    and "0 \<le> g ! i" "g ! i \<le> 1" "0 \<le> occ ! i"
  shows "0 \<le> masked_assign (mask_of g occ) g (map2 (+) g (added_volume_fraction g occ)) ! i"
    and "masked_assign (mask_of g occ) g (map2 (+) g (added_volume_fraction g occ)) ! i \<le> 1"
  using assms(3-5)
  unfolding global_step_nth[OF assms(1,2)] added_nth[OF assms(1,2)]
  by (auto simp: Let_def min_def)


lemma process_structures_append:
  "process_structures cfg (xs @ ys) st =
     and_then (process_structures cfg xs st) (process_structures cfg ys)"
proof (induction xs arbitrary: st)
  case Nil
  show ?case by simp
next
  case (Cons s xs)
  show ?case
    by (cases "process_structure cfg s st") (simp_all add: Cons.IH)
qed

text \<open>What one iteration leaves in the state, when it returns, and that it returns.\<close>

lemma process_structure_Inr:
  assumes "length (geometrical_volume s) = x_dim_px cfg * y_dim_px cfg * z_dim_px cfg"
    and "y_plane_index (y_dim_px cfg) (DIM_VOLUME_Y_MM cfg) (SPACING_MM cfg) = Inr j"
    and "n_counter st < length (structures_filling st)"
  shows "\<exists>st'. process_structure cfg s st = Inr st' \<and>
     global_volume_fractions st' =
       masked_assign (mask_of (global_volume_fractions st) (geometrical_volume s))
         (global_volume_fractions st)
         (map2 (+) (global_volume_fractions st)
            (added_volume_fraction (global_volume_fractions st) (geometrical_volume s))) \<and>
     structures_filling st' = (structures_filling st)
       [n_counter st := y_plane (x_dim_px cfg) (y_dim_px cfg) (z_dim_px cfg) j
          (added_volume_fraction (global_volume_fractions st) (geometrical_volume s))] \<and>
     n_counter st' = Suc (n_counter st) \<and>
     (volumes st', max_added_fractions st') =
       update_volumes
         (vessel_segmentation (segmentation_classes cfg) (params s) (properties_for_wavelength s))
         (mask_of (global_volume_fractions st) (geometrical_volume s))
         (added_volume_fraction (global_volume_fractions st) (geometrical_volume s))
         (volumes st) (max_added_fractions st)"
  using assms
  by (simp add: process_structure_def Let_def split: prod.splits)

lemma unit_interval_nth:
  "unit_interval xs \<longleftrightarrow> (\<forall>i < length xs. 0 \<le> xs ! i \<and> xs ! i \<le> 1)"
  by (auto simp: unit_interval_def all_set_conv_all_nth)

lemma global_step_unit_interval:
  assumes "length occ = length g" "unit_interval g" "unit_interval occ"
  shows "unit_interval (masked_assign (mask_of g occ) g (map2 (+) g (added_volume_fraction g occ)))"
  unfolding unit_interval_nth
proof (intro allI impI)
  fix i
  assume "i < length (masked_assign (mask_of g occ) g (map2 (+) g (added_volume_fraction g occ)))"
  then have i: "i < length g" "i < length occ" using assms(1) by simp_all
  from assms(2,3) i have "0 \<le> g ! i" "g ! i \<le> 1" "0 \<le> occ ! i"
    by (simp_all add: unit_interval_nth)
  from global_step_bounded[OF i this]
  show "0 \<le> masked_assign (mask_of g occ) g (map2 (+) g (added_volume_fraction g occ)) ! i \<and>
        masked_assign (mask_of g occ) g (map2 (+) g (added_volume_fraction g occ)) ! i \<le> 1"
    by simp
qed

lemma process_structures_bounded:
  assumes "\<forall>s \<in> set ss. length (geometrical_volume s) = x_dim_px cfg * y_dim_px cfg * z_dim_px cfg \<and>
             unit_interval (geometrical_volume s)"
    and "y_plane_index (y_dim_px cfg) (DIM_VOLUME_Y_MM cfg) (SPACING_MM cfg) = Inr j"
    and "n_counter st + length ss \<le> length (structures_filling st)"
    and "length (global_volume_fractions st) = x_dim_px cfg * y_dim_px cfg * z_dim_px cfg"
    and "unit_interval (global_volume_fractions st)"
  shows "\<exists>st'. process_structures cfg ss st = Inr st' \<and>
           unit_interval (global_volume_fractions st') \<and>
           length (global_volume_fractions st') = x_dim_px cfg * y_dim_px cfg * z_dim_px cfg"
  using assms
proof (induction ss arbitrary: st)
  case Nil
  then show ?case by simp
next
  case (Cons s ss)
  from Cons.prems(1) have len: "length (geometrical_volume s) =
      x_dim_px cfg * y_dim_px cfg * z_dim_px cfg" and occ: "unit_interval (geometrical_volume s)"
    by simp_all
  from Cons.prems(3) have n: "n_counter st < length (structures_filling st)" by simp
  from process_structure_Inr[OF len Cons.prems(2) n]
  obtain st1 where st1: "process_structure cfg s st = Inr st1"
    and g1: "global_volume_fractions st1 =
       masked_assign (mask_of (global_volume_fractions st) (geometrical_volume s))
         (global_volume_fractions st)
         (map2 (+) (global_volume_fractions st)
            (added_volume_fraction (global_volume_fractions st) (geometrical_volume s)))"
    and f1: "structures_filling st1 = (structures_filling st)
       [n_counter st := y_plane (x_dim_px cfg) (y_dim_px cfg) (z_dim_px cfg) j
          (added_volume_fraction (global_volume_fractions st) (geometrical_volume s))]"
    and n1: "n_counter st1 = Suc (n_counter st)"
    by blast
  have u1: "unit_interval (global_volume_fractions st1)"
    unfolding g1
    by (rule global_step_unit_interval) (simp_all add: len Cons.prems(4,5) occ)
  have l1: "length (global_volume_fractions st1) = x_dim_px cfg * y_dim_px cfg * z_dim_px cfg"
    by (simp add: g1 len Cons.prems(4))
  have c1: "n_counter st1 + length ss \<le> length (structures_filling st1)"
    using Cons.prems(3) by (simp add: f1 n1)
  from Cons.IH[OF _ Cons.prems(2) c1 l1 u1] Cons.prems(1)
  obtain st' where "process_structures cfg ss st1 = Inr st'"
    "unit_interval (global_volume_fractions st')"
    "length (global_volume_fractions st') = x_dim_px cfg * y_dim_px cfg * z_dim_px cfg"
    by auto
  with st1 show ?case by simp
qed

text \<open>
  Claim C2. When every structure's occupancy array has the size of the grid and
  values between 0 and 1 (and the plane index of line 105 exists), the loop returns
  for every prefix of the structure list, so no structure is rejected, and the global
  occupancy after each iteration, and after the whole pass, lies between 0 and 1 at
  every voxel.
\<close>

theorem global_occupancy_bounded:
  assumes "\<forall>s \<in> set structures.
             length (geometrical_volume s) = x_dim_px cfg * y_dim_px cfg * z_dim_px cfg \<and>
             (\<forall>v \<in> set (geometrical_volume s). 0 \<le> v \<and> v \<le> 1)"
    and "y_plane_index (y_dim_px cfg) (DIM_VOLUME_Y_MM cfg) (SPACING_MM cfg) = Inr j"
  shows "(\<forall>k \<le> length structures.
           \<exists>st. process_structures cfg (take k structures)
                  (initial_state cfg keys (length structures)) = Inr st \<and>
                create_simulation_volume cfg keys structures =
                  process_structures cfg (drop k structures) st \<and>
                (\<forall>v \<in> set (global_volume_fractions st). 0 \<le> v \<and> v \<le> 1)) \<and>
         (\<exists>st. create_simulation_volume cfg keys structures = Inr st \<and>
               (\<forall>v \<in> set (global_volume_fractions st). 0 \<le> v \<and> v \<le> 1))"
proof -
  let ?init = "initial_state cfg keys (length structures)"
  have prefix: "\<exists>st. process_structures cfg (take k structures) ?init = Inr st \<and>
                create_simulation_volume cfg keys structures =
                  process_structures cfg (drop k structures) st \<and>
                (\<forall>v \<in> set (global_volume_fractions st). 0 \<le> v \<and> v \<le> 1)"
    if k: "k \<le> length structures" for k
  proof -
    have a: "\<forall>s \<in> set (take k structures).
             length (geometrical_volume s) = x_dim_px cfg * y_dim_px cfg * z_dim_px cfg \<and>
             unit_interval (geometrical_volume s)"
      using assms(1) by (auto simp: unit_interval_def dest: in_set_takeD)
    have "\<exists>st'. process_structures cfg (take k structures) ?init = Inr st' \<and>
           unit_interval (global_volume_fractions st') \<and>
           length (global_volume_fractions st') = x_dim_px cfg * y_dim_px cfg * z_dim_px cfg"
      by (rule process_structures_bounded[OF a assms(2)])
         (simp_all add: initial_state_def Let_def unit_interval_def k)
    then obtain st where st: "process_structures cfg (take k structures) ?init = Inr st"
      "unit_interval (global_volume_fractions st)" by blast
    have "create_simulation_volume cfg keys structures =
            process_structures cfg (take k structures @ drop k structures) ?init"
      by (simp add: create_simulation_volume_def)
    also have "\<dots> = process_structures cfg (drop k structures) st"
      unfolding process_structures_append by (simp add: st(1))
    finally show ?thesis using st by (auto simp: unit_interval_def)
  qed
  from prefix[of "length structures"] have "\<exists>st. create_simulation_volume cfg keys structures = Inr st \<and>
               (\<forall>v \<in> set (global_volume_fractions st). 0 \<le> v \<and> v \<le> 1)"
    by auto
  with prefix show ?thesis by blast
qed


lemma update_volumes_keys:
  "map fst (fst (update_volumes p m a vols mx)) = map fst vols"
  by (induction p m a vols mx rule: update_volumes.induct)
     (auto simp: Let_def split: option.splits prod.splits)

lemma update_volumes_no_seg:
  "DATA_FIELD_SEGMENTATION \<notin> fst ` set vols \<Longrightarrow> snd (update_volumes p m a vols mx) = mx"
  by (induction p m a vols mx rule: update_volumes.induct)
     (auto simp: Let_def split: option.splits prod.splits)

lemma update_volumes_seg:
  assumes "distinct (map fst vols)"
    and "map_of vols DATA_FIELD_SEGMENTATION = Some vol"
    and "p DATA_FIELD_SEGMENTATION = Some l"
  shows "map_of (fst (update_volumes p m a vols mx)) DATA_FIELD_SEGMENTATION =
           Some (masked_assign (map2 (\<and>) (map2 (\<lambda>x y. y < x) a mx) m) vol
                   (replicate (length vol) l)) \<and>
         snd (update_volumes p m a vols mx) =
           masked_assign (map2 (\<and>) (map2 (\<lambda>x y. y < x) a mx) m) mx a"
  using assms
proof (induction vols arbitrary: mx)
  case Nil
  then show ?case by simp
next
  case (Cons kv vols)
  obtain key vol0 where kv: "kv = (key, vol0)" by (cases kv)
  show ?case
  proof (cases "key = DATA_FIELD_SEGMENTATION")
    case True
    with Cons.prems kv have v: "vol0 = vol"
      and notin: "DATA_FIELD_SEGMENTATION \<notin> fst ` set vols" by auto
    let ?mx' = "masked_assign (map2 (\<and>) (map2 (\<lambda>x y. y < x) a mx) m) mx a"
    obtain rest' mx2 where r: "update_volumes p m a vols ?mx' = (rest', mx2)"
      by (cases "update_volumes p m a vols ?mx'")
    with update_volumes_no_seg[OF notin, of p m a ?mx'] have "mx2 = ?mx'" by simp
    with r show ?thesis
      using Cons.prems(3) by (simp add: kv True v Let_def)
  next
    case False
    with Cons.prems kv have "distinct (map fst vols)"
      "map_of vols DATA_FIELD_SEGMENTATION = Some vol" by auto
    from Cons.IH[OF this Cons.prems(3), of mx]
    have ih: "map_of (fst (update_volumes p m a vols mx)) DATA_FIELD_SEGMENTATION =
           Some (masked_assign (map2 (\<and>) (map2 (\<lambda>x y. y < x) a mx) m) vol
                   (replicate (length vol) l))"
      "snd (update_volumes p m a vols mx) =
           masked_assign (map2 (\<and>) (map2 (\<lambda>x y. y < x) a mx) m) mx a"
      by simp_all
    obtain rest' mx2 where r: "update_volumes p m a vols mx = (rest', mx2)"
      by (cases "update_volumes p m a vols mx")
    have "fst (update_volumes p m a ((key, vol0) # vols) mx) =
            (key, (case p key of None \<Rightarrow> vol0
                   | Some x \<Rightarrow> masked_assign m vol0 (map2 (\<lambda>y b. y + b * x) vol0 a))) # rest'"
      and "snd (update_volumes p m a ((key, vol0) # vols) mx) = mx2"
      using False r by (simp_all add: Let_def split: option.splits)
    with ih r show ?thesis
      using False by (simp add: kv)
  qed
qed

lemma initial_state_fields:
  "global_volume_fractions (initial_state cfg keys k) =
     replicate (x_dim_px cfg * y_dim_px cfg * z_dim_px cfg) 0"
  "max_added_fractions (initial_state cfg keys k) =
     replicate (x_dim_px cfg * y_dim_px cfg * z_dim_px cfg) 0"
  "volumes (initial_state cfg keys k) =
     map (\<lambda>f. (f, replicate (x_dim_px cfg * y_dim_px cfg * z_dim_px cfg) 0)) keys"
  "structures_filling (initial_state cfg keys k) =
     replicate k (replicate (x_dim_px cfg * z_dim_px cfg) 0)"
  "n_counter (initial_state cfg keys k) = 0"
  by (simp_all add: initial_state_def Let_def)

lemma map_of_initial_volumes:
  "f \<in> set keys \<Longrightarrow> map_of (map (\<lambda>f. (f, c)) keys) f = Some c"
  by (induction keys) auto

text \<open>
  Claim C1. Structure A is processed before structure B; both have occupancy 0.6 at
  the voxel \<open>v\<close>, and their segmentation labels are \<open>label_A\<close> and \<open>label_B\<close>. Both
  iterations return. The fraction added for A at \<open>v\<close> is 0.6 and the global occupancy
  goes from 0 to 0.6; the fraction added for B is 0.4 and the global occupancy goes to
  1; the segmentation volume at \<open>v\<close> holds the label of A after the pass, since 0.4
  is not above the largest added fraction 0.6.
\<close>

theorem overlap_tie_break:
  assumes "N = x_dim_px cfg * y_dim_px cfg * z_dim_px cfg"
    and "length (geometrical_volume A) = N" "length (geometrical_volume B) = N"
    and "y_plane_index (y_dim_px cfg) (DIM_VOLUME_Y_MM cfg) (SPACING_MM cfg) = Inr j"
    and "v < N"
    and "geometrical_volume A ! v = 6 / 10" "geometrical_volume B ! v = 6 / 10"
    and "vessel_segmentation (segmentation_classes cfg) (params A) (properties_for_wavelength A)
           DATA_FIELD_SEGMENTATION = Some label_A"
    and "vessel_segmentation (segmentation_classes cfg) (params B) (properties_for_wavelength B)
           DATA_FIELD_SEGMENTATION = Some label_B"
    and "distinct keys" "DATA_FIELD_SEGMENTATION \<in> set keys"
  shows "\<exists>st_A st_B seg.
           process_structure cfg A (initial_state cfg keys 2) = Inr st_A \<and>
           process_structure cfg B st_A = Inr st_B \<and>
           create_simulation_volume cfg keys [A, B] = Inr st_B \<and>
           added_volume_fraction (global_volume_fractions (initial_state cfg keys 2))
             (geometrical_volume A) ! v = 6 / 10 \<and>
           global_volume_fractions st_A ! v = 6 / 10 \<and>
           added_volume_fraction (global_volume_fractions st_A) (geometrical_volume B) ! v = 4 / 10 \<and>
           global_volume_fractions st_B ! v = 1 \<and>
           map_of (volumes st_B) DATA_FIELD_SEGMENTATION = Some seg \<and>
           seg ! v = label_A"
proof -
  let ?st0 = "initial_state cfg keys 2"
  let ?g0 = "global_volume_fractions ?st0"
  let ?occA = "geometrical_volume A"
  let ?occB = "geometrical_volume B"
  let ?pA = "vessel_segmentation (segmentation_classes cfg) (params A) (properties_for_wavelength A)"
  let ?pB = "vessel_segmentation (segmentation_classes cfg) (params B) (properties_for_wavelength B)"
  note init = initial_state_fields[of cfg keys 2]
  have lenA: "length ?occA = x_dim_px cfg * y_dim_px cfg * z_dim_px cfg"
    and lenB: "length ?occB = x_dim_px cfg * y_dim_px cfg * z_dim_px cfg"
    using assms(1-3) by simp_all
  have g0: "?g0 = replicate N 0" and m0: "max_added_fractions ?st0 = replicate N 0"
    using init(1,2) assms(1) by simp_all
  \<comment> \<open>structure A\<close>
  from process_structure_Inr[OF lenA assms(4), of ?st0]
  obtain st_A where A: "process_structure cfg A ?st0 = Inr st_A"
    and gA: "global_volume_fractions st_A =
       masked_assign (mask_of ?g0 ?occA) ?g0 (map2 (+) ?g0 (added_volume_fraction ?g0 ?occA))"
    and fA: "structures_filling st_A = (structures_filling ?st0)
       [n_counter ?st0 := y_plane (x_dim_px cfg) (y_dim_px cfg) (z_dim_px cfg) j
          (added_volume_fraction ?g0 ?occA)]"
    and nA: "n_counter st_A = Suc (n_counter ?st0)"
    and vA: "(volumes st_A, max_added_fractions st_A) =
       update_volumes ?pA (mask_of ?g0 ?occA) (added_volume_fraction ?g0 ?occA)
         (volumes ?st0) (max_added_fractions ?st0)"
    by (auto simp: init)
  have vg0: "v < length ?g0" "v < length ?occA" "?g0 ! v = 0"
    using assms(2,5) g0 by simp_all
  have addA: "added_volume_fraction ?g0 ?occA ! v = 6 / 10"
    using added_nth[OF vg0(1,2)] vg0(3) assms(6) by (simp add: Let_def)
  have gAv: "global_volume_fractions st_A ! v = 6 / 10"
    unfolding gA global_step_nth[OF vg0(1,2)] using vg0(3) assms(6) addA by simp
  have lgA: "length (global_volume_fractions st_A) = N"
    using gA g0 assms(2) by simp
  have seg0: "map_of (volumes ?st0) DATA_FIELD_SEGMENTATION = Some (replicate N 0)"
    using map_of_initial_volumes[OF assms(11)] init(3) assms(1) by simp
  have dist0: "distinct (map fst (volumes ?st0))"
    using assms(10) by (simp add: init(3) comp_def)
  let ?selA = "map2 (\<and>) (map2 (\<lambda>x y. y < x) (added_volume_fraction ?g0 ?occA)
                  (max_added_fractions ?st0)) (mask_of ?g0 ?occA)"
  from update_volumes_seg[where p = ?pA and m = "mask_of ?g0 ?occA"
      and a = "added_volume_fraction ?g0 ?occA" and mx = "max_added_fractions ?st0",
      OF dist0 seg0 assms(8)] vA
  have segA: "map_of (volumes st_A) DATA_FIELD_SEGMENTATION =
       Some (masked_assign ?selA (replicate N 0) (replicate N label_A))"
    and mxA: "max_added_fractions st_A =
       masked_assign ?selA (max_added_fractions ?st0) (added_volume_fraction ?g0 ?occA)"
    by (cases "update_volumes ?pA (mask_of ?g0 ?occA) (added_volume_fraction ?g0 ?occA)
         (volumes ?st0) (max_added_fractions ?st0)"; simp)+
  have lselA: "length ?selA = N" using g0 m0 assms(2) by simp
  have selAv: "?selA ! v"
    using assms(5,6) vg0 addA g0 m0 assms(2) by (simp add: mask_of_nth)
  have mxAv: "max_added_fractions st_A ! v = 6 / 10"
    unfolding mxA using selAv lselA assms(5) m0 g0 assms(2) addA
    by (simp add: masked_assign_nth)
  have lmxA: "length (max_added_fractions st_A) = N"
    unfolding mxA using lselA m0 g0 assms(2) by simp
  have distA: "distinct (map fst (volumes st_A))"
    using update_volumes_keys[of ?pA "mask_of ?g0 ?occA" "added_volume_fraction ?g0 ?occA"
        "volumes ?st0" "max_added_fractions ?st0"] vA dist0
    by (cases "update_volumes ?pA (mask_of ?g0 ?occA) (added_volume_fraction ?g0 ?occA)
         (volumes ?st0) (max_added_fractions ?st0)") simp
  \<comment> \<open>structure B\<close>
  let ?gA = "global_volume_fractions st_A"
  have cB: "n_counter st_A < length (structures_filling st_A)"
    by (simp add: nA fA init)
  from process_structure_Inr[OF lenB assms(4) cB]
  obtain st_B where B: "process_structure cfg B st_A = Inr st_B"
    and gB: "global_volume_fractions st_B =
       masked_assign (mask_of ?gA ?occB) ?gA (map2 (+) ?gA (added_volume_fraction ?gA ?occB))"
    and vB: "(volumes st_B, max_added_fractions st_B) =
       update_volumes ?pB (mask_of ?gA ?occB) (added_volume_fraction ?gA ?occB)
         (volumes st_A) (max_added_fractions st_A)"
    by blast
  have vgA: "v < length ?gA" "v < length ?occB"
    using lgA assms(3,5) by simp_all
  have addB: "added_volume_fraction ?gA ?occB ! v = 4 / 10"
    using added_nth[OF vgA] gAv assms(7) by (simp add: Let_def)
  have gBv: "global_volume_fractions st_B ! v = 1"
    unfolding gB global_step_nth[OF vgA] using gAv assms(7) addB by simp
  let ?selB = "map2 (\<and>) (map2 (\<lambda>x y. y < x) (added_volume_fraction ?gA ?occB)
                  (max_added_fractions st_A)) (mask_of ?gA ?occB)"
  let ?segA = "masked_assign ?selA (replicate N 0) (replicate N label_A)"
  from update_volumes_seg[where p = ?pB and m = "mask_of ?gA ?occB"
      and a = "added_volume_fraction ?gA ?occB" and mx = "max_added_fractions st_A",
      OF distA segA assms(9)] vB
  have segB: "map_of (volumes st_B) DATA_FIELD_SEGMENTATION =
       Some (masked_assign ?selB ?segA (replicate (length ?segA) label_B))"
    by (cases "update_volumes ?pB (mask_of ?gA ?occB) (added_volume_fraction ?gA ?occB)
         (volumes st_A) (max_added_fractions st_A)") simp
  have lsegA: "length ?segA = N" using lselA by simp
  have lselB: "length ?selB = N" using lgA lmxA assms(3) by simp
  have selBv: "\<not> ?selB ! v"
    using assms(5) lgA lmxA assms(3) addB mxAv by simp
  have segAv: "?segA ! v = label_A"
    using selAv lselA assms(5) by (simp add: masked_assign_nth)
  have "masked_assign ?selB ?segA (replicate (length ?segA) label_B) ! v =
      (if ?selB ! v then replicate (length ?segA) label_B ! v else ?segA ! v)"
    by (rule masked_assign_nth) (simp_all only: lselB lsegA length_replicate assms(5))
  also have "\<dots> = ?segA ! v"
    using selBv by (simp only: if_False)
  finally have segBv:
    "masked_assign ?selB ?segA (replicate (length ?segA) label_B) ! v = label_A"
    by (simp only: segAv)
  have two: "length [A, B] = 2" by simp
  have run: "create_simulation_volume cfg keys [A, B] = Inr st_B"
    unfolding create_simulation_volume_def two
    by (simp only: process_structures.simps A B and_then_simps)
  show ?thesis
    apply (rule exI[of _ st_A])
    apply (rule exI[of _ st_B])
    apply (rule exI[of _ "masked_assign ?selB ?segA (replicate (length ?segA) label_B)"])
    apply (intro conjI)
    apply (rule A B run addA gAv addB gBv segB segBv)+
    done
qed


lemma unit_plane_index: "y_plane_index (Suc 0) 1 1 = Inr 0"
  by (simp add: y_plane_index_def py_int_def np_index_def)

lemma single_voxel_grid_fields:
  "x_dim_px single_voxel_grid = 1" "y_dim_px single_voxel_grid = 1"
  "z_dim_px single_voxel_grid = 1" "DIM_VOLUME_Y_MM single_voxel_grid = 1"
  "SPACING_MM single_voxel_grid = 1"
  by (simp_all add: single_voxel_grid_def)

lemma labelled_structure_fields:
  "geometrical_volume (labelled_structure l occ) = occ"
  "vessel_segmentation sc (params (labelled_structure l occ))
     (properties_for_wavelength (labelled_structure l occ)) DATA_FIELD_SEGMENTATION = Some l"
  by (simp_all add: labelled_structure_def vessel_segmentation_def)

theorem overlap_tie_break_witness:
  "\<exists>st seg. create_simulation_volume single_voxel_grid
              [DATA_FIELD_SEGMENTATION, DATA_FIELD_ABSORPTION_PER_CM]
              [labelled_structure 10 [6 / 10], labelled_structure 20 [6 / 10]] = Inr st \<and>
            global_volume_fractions st ! 0 = 1 \<and>
            map_of (volumes st) DATA_FIELD_SEGMENTATION = Some seg \<and>
            seg ! 0 = 10"
proof -
  have "\<exists>st_A st_B seg.
           process_structure single_voxel_grid (labelled_structure 10 [6 / 10])
             (initial_state single_voxel_grid
                [DATA_FIELD_SEGMENTATION, DATA_FIELD_ABSORPTION_PER_CM] 2) = Inr st_A \<and>
           process_structure single_voxel_grid (labelled_structure 20 [6 / 10]) st_A = Inr st_B \<and>
           create_simulation_volume single_voxel_grid
             [DATA_FIELD_SEGMENTATION, DATA_FIELD_ABSORPTION_PER_CM]
             [labelled_structure 10 [6 / 10], labelled_structure 20 [6 / 10]] = Inr st_B \<and>
           added_volume_fraction
             (global_volume_fractions (initial_state single_voxel_grid
                [DATA_FIELD_SEGMENTATION, DATA_FIELD_ABSORPTION_PER_CM] 2))
             (geometrical_volume (labelled_structure 10 [6 / 10])) ! 0 = 6 / 10 \<and>
           global_volume_fractions st_A ! 0 = 6 / 10 \<and>
           added_volume_fraction (global_volume_fractions st_A)
             (geometrical_volume (labelled_structure 20 [6 / 10])) ! 0 = 4 / 10 \<and>
           global_volume_fractions st_B ! 0 = 1 \<and>
           map_of (volumes st_B) DATA_FIELD_SEGMENTATION = Some seg \<and>
           seg ! 0 = 10"
    by (rule overlap_tie_break[where N = 1 and j = 0 and label_B = 20])
       (simp_all add: single_voxel_grid_fields unit_plane_index labelled_structure_fields)
  then show ?thesis by blast
qed

theorem global_occupancy_bounded_witness:
  "\<exists>st. create_simulation_volume single_voxel_grid
           [DATA_FIELD_SEGMENTATION, DATA_FIELD_ABSORPTION_PER_CM]
           [labelled_structure 10 [6 / 10], labelled_structure 20 [6 / 10]] = Inr st \<and>
        list_all (\<lambda>v. 0 \<le> v \<and> v \<le> 1) (global_volume_fractions st)"
proof -
  have "(\<forall>k \<le> length [labelled_structure 10 [6 / 10], labelled_structure 20 [6 / 10]].
           \<exists>st. process_structures single_voxel_grid
                  (take k [labelled_structure 10 [6 / 10], labelled_structure 20 [6 / 10]])
                  (initial_state single_voxel_grid
                     [DATA_FIELD_SEGMENTATION, DATA_FIELD_ABSORPTION_PER_CM]
                     (length [labelled_structure 10 [6 / 10], labelled_structure 20 [6 / 10]])) =
                  Inr st \<and>
                create_simulation_volume single_voxel_grid
                  [DATA_FIELD_SEGMENTATION, DATA_FIELD_ABSORPTION_PER_CM]
                  [labelled_structure 10 [6 / 10], labelled_structure 20 [6 / 10]] =
                  process_structures single_voxel_grid
                    (drop k [labelled_structure 10 [6 / 10], labelled_structure 20 [6 / 10]]) st \<and>
                (\<forall>v \<in> set (global_volume_fractions st). 0 \<le> v \<and> v \<le> 1)) \<and>
         (\<exists>st. create_simulation_volume single_voxel_grid
                 [DATA_FIELD_SEGMENTATION, DATA_FIELD_ABSORPTION_PER_CM]
                 [labelled_structure 10 [6 / 10], labelled_structure 20 [6 / 10]] = Inr st \<and>
               (\<forall>v \<in> set (global_volume_fractions st). 0 \<le> v \<and> v \<le> 1))"
    by (rule global_occupancy_bounded[where j = 0])
       (simp_all add: single_voxel_grid_fields unit_plane_index labelled_structure_fields)
  then show ?thesis by (simp only: list_all_iff)
qed

text \<open>
  Where a structure has occupancy 0 and the voxel is partly filled already, the array
  of added fractions still holds the sum of line 93, which is the global occupancy.
\<close>

lemma added_where_structure_is_absent:
  assumes "i < length g" "i < length occ" "occ ! i = 0" "0 < g ! i" "g ! i \<le> 1"
  shows "added_volume_fraction g occ ! i = g ! i"
  using assms(3-5) unfolding added_nth[OF assms(1,2)] by (simp add: Let_def)

lemma y_plane_single_voxel: "y_plane (Suc 0) (Suc 0) (Suc 0) 0 [a] = [a]"
  by (simp add: y_plane_def)

lemma added_first: "added_volume_fraction [0] [1 / 2] = [1 / 2]"
  by (simp add: added_volume_fraction_def mask_of_def structure_indexes_mask_def
        global_volume_fractions_mask_def masked_assign_def Let_def)

lemma added_second: "added_volume_fraction [1 / 2] [0] = [1 / 2]"
  by (simp add: added_volume_fraction_def mask_of_def structure_indexes_mask_def
        global_volume_fractions_mask_def masked_assign_def Let_def)

text \<open>
  Claim C3 says that the plane of added fractions stored for a structure is 0 at every
  voxel that is not eligible. On a grid of one voxel, a first structure has occupancy
  0.5 and a second one occupancy 0. The voxel is not eligible for the second
  structure, and the global occupancy stays at 0.5; the plane stored for the second
  structure holds 0.5, the global occupancy before it, where the claim has 0. Line 105
  copies the array without the mask that lines 113 to 119 apply.
\<close>

theorem audit_slice_where_structure_is_absent:
  "(case create_simulation_volume single_voxel_grid [DATA_FIELD_SEGMENTATION]
           [labelled_structure 10 [1 / 2], labelled_structure 20 [0]] of
      Inl e \<Rightarrow> False
    | Inr st \<Rightarrow>
        structures_filling st = [[1 / 2], [1 / 2]] \<and>
        global_volume_fractions st = [1 / 2])"
proof -
  let ?cfg = single_voxel_grid
  let ?st0 = "initial_state ?cfg [DATA_FIELD_SEGMENTATION] 2"
  have g0: "global_volume_fractions ?st0 = [0]" "structures_filling ?st0 = [[0], [0]]"
    "n_counter ?st0 = 0"
    by (simp_all add: initial_state_def single_voxel_grid_fields Let_def numeral_2_eq_2)
  from process_structure_Inr[of "labelled_structure 10 [1 / 2]" ?cfg 0 ?st0]
  obtain st1 where 1: "process_structure ?cfg (labelled_structure 10 [1 / 2]) ?st0 = Inr st1"
    and g1: "global_volume_fractions st1 = [1 / 2]"
    and f1: "structures_filling st1 = [[1 / 2], [0]]"
    and n1: "n_counter st1 = 1"
    by (auto simp: single_voxel_grid_fields unit_plane_index labelled_structure_fields g0
        added_first y_plane_single_voxel mask_of_def structure_indexes_mask_def
        global_volume_fractions_mask_def masked_assign_def)
  from process_structure_Inr[of "labelled_structure 20 [0]" ?cfg 0 st1]
  obtain st2 where 2: "process_structure ?cfg (labelled_structure 20 [0]) st1 = Inr st2"
    and g2: "global_volume_fractions st2 = [1 / 2]"
    and f2: "structures_filling st2 = [[1 / 2], [1 / 2]]"
    by (auto simp: single_voxel_grid_fields unit_plane_index labelled_structure_fields g1 f1 n1
        added_second y_plane_single_voxel mask_of_def structure_indexes_mask_def
        global_volume_fractions_mask_def masked_assign_def)
  have two: "length [labelled_structure 10 [1 / 2], labelled_structure 20 [0]] = 2" by simp
  have "create_simulation_volume ?cfg [DATA_FIELD_SEGMENTATION]
           [labelled_structure 10 [1 / 2], labelled_structure 20 [0]] = Inr st2"
    unfolding create_simulation_volume_def two
    by (simp only: process_structures.simps 1 2 and_then_simps)
  then show ?thesis by (simp add: g2 f2)
qed


end
